theory Spec2Isabelle
  imports Complex_Main
begin

section \<open>Conventions\<close>

text \<open>
  The welding simulator computes with Python floats (IEEE 754 binary64). Two embeddings
  are used.

  The exact embedding computes over the real numbers: rounding, overflow to infinity and
  NaN are outside it. It carries the properties that do not depend on rounding: bounds,
  clamps, orderings and the values that the program computes without rounding error.

  The binary64 embedding (the functions whose names end in \<open>_b64\<close>) rounds the result
  of every arithmetic operation to the nearest binary64 value, ties to even, with gradual
  underflow below \<open>2 ^ - 1022\<close>. Its exponent is unbounded above: overflow to infinity is
  outside it, and the theorems about it bound their inputs so that no operation of the
  program overflows. It carries the properties in which an exact equality is at stake.

  A Python division of two floats raises \<open>ZeroDivisionError\<close> when the divisor is zero,
  and a dictionary lookup of an absent key raises \<open>KeyError\<close>; both are results of the
  model, so every function that can raise returns \<open>error + 'a\<close>.
\<close>

datatype error = ZeroDivisionError | KeyError

section \<open>Material properties database (material_properties.py)\<close>

record material_props =
  thermal_conductivity :: real
  density :: real
  specific_heat_solid :: real
  specific_heat_liquid :: real
  solidus_temp :: real
  liquidus_temp :: real
  latent_heat :: real
  permeability :: real
  surface_tension :: real
  arc_efficiency_gtaw :: real
  arc_efficiency_gmaw :: real
  droplet_efficiency_gmaw :: real

definition steel :: material_props where
  "steel = \<lparr>thermal_conductivity = 50.0, density = 7800.0,
     specific_heat_solid = 726000.0, specific_heat_liquid = 732000.0,
     solidus_temp = 1768.0, liquidus_temp = 1798.0,
     latent_heat = 277000, permeability = 1.26 / 10 ^ 6,
     surface_tension = 1.8, arc_efficiency_gtaw = 0.7,
     arc_efficiency_gmaw = 0.56, droplet_efficiency_gmaw = 0.24\<rparr>"

definition aluminum :: material_props where
  "aluminum = \<lparr>thermal_conductivity = 237.0, density = 2700.0,
     specific_heat_solid = 903000.0, specific_heat_liquid = 1080000.0,
     solidus_temp = 933.0, liquidus_temp = 943.0,
     latent_heat = 397000, permeability = 1.26 / 10 ^ 6,
     surface_tension = 0.9, arc_efficiency_gtaw = 0.65,
     arc_efficiency_gmaw = 0.50, droplet_efficiency_gmaw = 0.20\<rparr>"

definition stainless_steel :: material_props where
  "stainless_steel = \<lparr>thermal_conductivity = 16.0, density = 8000.0,
     specific_heat_solid = 500000.0, specific_heat_liquid = 520000.0,
     solidus_temp = 1673.0, liquidus_temp = 1723.0,
     latent_heat = 260000, permeability = 1.26 / 10 ^ 6,
     surface_tension = 1.6, arc_efficiency_gtaw = 0.68,
     arc_efficiency_gmaw = 0.54, droplet_efficiency_gmaw = 0.22\<rparr>"

definition titanium :: material_props where
  "titanium = \<lparr>thermal_conductivity = 22.0, density = 4500.0,
     specific_heat_solid = 520000.0, specific_heat_liquid = 610000.0,
     solidus_temp = 1933.0, liquidus_temp = 1943.0,
     latent_heat = 420000, permeability = 1.26 / 10 ^ 6,
     surface_tension = 1.5, arc_efficiency_gtaw = 0.72,
     arc_efficiency_gmaw = 0.58, droplet_efficiency_gmaw = 0.26\<rparr>"

text \<open>The dictionary literal \<open>properties_db\<close> of \<open>get_properties\<close>, in source order.\<close>

definition properties_db :: "(string \<times> material_props) list" where
  "properties_db =
     [(''Steel'', steel), (''Aluminum'', aluminum),
      (''Stainless Steel'', stainless_steel), (''Titanium'', titanium)]"

text \<open>
  \<open>get_properties\<close>: an absent name is replaced by \<open>"Steel"\<close>, then the dictionary is
  indexed (an absent key there would raise \<open>KeyError\<close>).
\<close>

definition get_properties :: "string \<Rightarrow> error + material_props" where
  "get_properties material_type =
     (let material_type' =
        (if map_of properties_db material_type = None then ''Steel'' else material_type)
      in case map_of properties_db material_type' of
           None \<Rightarrow> Inl KeyError
         | Some props \<Rightarrow> Inr props)"

definition get_available_materials :: "string list" where
  "get_available_materials = [''Steel'', ''Aluminum'', ''Stainless Steel'', ''Titanium'']"

text \<open>
  The conditions the specification's data model puts on a material record: positive
  conductivity, density and specific heats, and liquidus above solidus above the room
  temperature of 298 K.
\<close>

definition valid_material :: "material_props \<Rightarrow> bool" where
  "valid_material m \<longleftrightarrow>
     0 < thermal_conductivity m \<and> 0 < density m \<and>
     0 < specific_heat_solid m \<and> 0 < specific_heat_liquid m \<and>
     298 < solidus_temp m \<and> solidus_temp m < liquidus_temp m"

section \<open>Physics engine (welding_physics.py)\<close>

subsection \<open>Heat input\<close>

definition calculate_heat_input :: "real \<Rightarrow> real \<Rightarrow> real \<Rightarrow> real \<Rightarrow> error + real" where
  "calculate_heat_input current voltage travel_speed arc_efficiency =
     (let travel_speed_mm_min = travel_speed * 60
      in if travel_speed_mm_min = 0 then Inl ZeroDivisionError
         else Inr ((arc_efficiency * voltage * current * 60) / travel_speed_mm_min))"

subsection \<open>Weld pool geometry\<close>

text \<open>
  The dictionary returned by \<open>calculate_weld_pool_geometry\<close>. The key \<open>length\<close> is the
  field \<open>length_mm\<close> and the key \<open>heat_input\<close> is the field \<open>pool_heat_input\<close>.
\<close>

record weld_pool_geometry =
  width :: real
  length_mm :: real
  penetration :: real
  aspect_ratio :: real
  dilution_ratio :: real
  volume :: real
  pool_heat_input :: real
  characteristic_length :: real

text \<open>
  The intermediate values of \<open>calculate_weld_pool_geometry\<close>, one definition for each
  assignment: \<open>l_c\<close> (lines 60 to 64, in metres), the width before the clamp (line 68),
  the penetration before the clamp (lines 75 to 79) and the dilution ratio (line 87).
\<close>

definition l_c_of :: "real \<Rightarrow> material_props \<Rightarrow> real" where
  "l_c_of heat_input material_props =
     (let k = thermal_conductivity material_props;
          T_m = liquidus_temp material_props;
          T_0 = 298;
          q = heat_input * 1000;
          delta_T = T_m - T_0
      in q / (2 * pi * k * delta_T))"

definition raw_width :: "real \<Rightarrow> real" where
  "raw_width l_c = 2.5 * l_c * 1000"

definition raw_penetration :: "real \<Rightarrow> real \<Rightarrow> real" where
  "raw_penetration l_c plate_thickness =
     (if plate_thickness > 3 * raw_width l_c then 0.8 * l_c * 1000
      else min (0.6 * l_c * 1000) (plate_thickness * 0.9))"

definition dilution_of :: "real \<Rightarrow> real" where
  "dilution_of p = p / (p + 3.0)"

text \<open>
  The four divisions of the function are guarded in source order: \<open>alpha\<close>, \<open>l_c\<close>,
  \<open>aspect_ratio\<close> and \<open>dilution_ratio\<close>.
\<close>

definition calculate_weld_pool_geometry ::
    "real \<Rightarrow> material_props \<Rightarrow> real \<Rightarrow> error + weld_pool_geometry" where
  "calculate_weld_pool_geometry heat_input material_props plate_thickness =
     (let k = thermal_conductivity material_props;
          rho = density material_props;
          cp = specific_heat_solid material_props;
          T_m = liquidus_temp material_props;
          T_0 = 298
      in if rho * cp = 0 then Inl ZeroDivisionError
         else if 2 * pi * k * (T_m - T_0) = 0 then Inl ZeroDivisionError
         else
           (let l_c = l_c_of heat_input material_props;
                width0 = raw_width l_c;
                length0 = 3.2 * width0;
                penetration0 = raw_penetration l_c plate_thickness;
                penetration1 = min penetration0 plate_thickness;
                width1 = min width0 (plate_thickness * 2)
            in if width1 = 0 then Inl ZeroDivisionError
               else if penetration1 + 3.0 = 0 then Inl ZeroDivisionError
               else Inr \<lparr>width = width1,
                         length_mm = length0,
                         penetration = penetration1,
                         aspect_ratio = length0 / width1,
                         dilution_ratio = dilution_of penetration1,
                         volume = (pi / 6) * width1 * length0 * penetration1,
                         pool_heat_input = heat_input,
                         characteristic_length = l_c * 1000\<rparr>))"

subsection \<open>Temperature field\<close>

text \<open>
  \<open>np.linspace(start, stop, num)\<close>: \<open>num\<close> evenly spaced samples from \<open>start\<close> to
  \<open>stop\<close>, both included. \<open>np.meshgrid(x, y)\<close>: two matrices with one row for each
  entry of \<open>y\<close> and one column for each entry of \<open>x\<close>.
\<close>

definition linspace :: "real \<Rightarrow> real \<Rightarrow> nat \<Rightarrow> real list" where
  "linspace start stop num =
     map (\<lambda>i. start + real i * ((stop - start) / real (num - 1))) [0..<num]"

definition meshgrid :: "real list \<Rightarrow> real list \<Rightarrow> real list list \<times> real list list" where
  "meshgrid xs ys =
     (map (\<lambda>y. xs) ys, map (\<lambda>y. map (\<lambda>x. y) xs) ys)"

text \<open>
  The dictionary returned by \<open>calculate_temperature_distribution\<close>: the keys \<open>x\<close>,
  \<open>y\<close>, \<open>X\<close> and \<open>Y\<close> are the fields \<open>x_axis\<close>, \<open>y_axis\<close>, \<open>X_grid\<close> and
  \<open>Y_grid\<close> (coordinates in millimetres); \<open>temperature\<close> has one row for each \<open>y\<close>.
\<close>

record temperature_field =
  x_axis :: "real list"
  y_axis :: "real list"
  X_grid :: "real list list"
  Y_grid :: "real list list"
  temperature :: "real list list"
  max_temp :: real
  min_temp :: real

text \<open>
  The body of the double loop at one grid point (coordinates in metres), before the
  ceiling of 3500 K. Inside the branch \<open>r > 0\<close> the operands are NumPy scalars, whose
  division does not raise; at the source point the operands are Python floats, and the
  division raises when the divisor is zero.
\<close>

definition point_temperature ::
    "real \<Rightarrow> real \<Rightarrow> real \<Rightarrow> real \<Rightarrow> real \<Rightarrow> real \<Rightarrow> error + real" where
  "point_temperature q k v alpha x_m y_m =
     (let T_0 = 298;
          r = sqrt (x_m ^ 2 + y_m ^ 2)
      in if r > 0 then
           (let R = sqrt (x_m ^ 2 + y_m ^ 2);
                exponential_term = exp (- v * (R - x_m) / (2 * alpha))
            in Inr (T_0 + (q / (2 * pi * k * R)) * exponential_term))
         else if 4 * pi * k * 0.001 = 0 then Inl ZeroDivisionError
         else Inr (T_0 + q / (4 * pi * k * 0.001)))"

text \<open>A loop whose body can raise stops at the first error.\<close>

fun sequence_err :: "(error + 'a) list \<Rightarrow> error + 'a list" where
  "sequence_err [] = Inr []"
| "sequence_err (Inl e # rs) = Inl e"
| "sequence_err (Inr v # rs) =
     (case sequence_err rs of Inl e \<Rightarrow> Inl e | Inr vs \<Rightarrow> Inr (v # vs))"

definition calculate_temperature_distribution ::
    "real \<Rightarrow> material_props \<Rightarrow> real \<Rightarrow> error + temperature_field" where
  "calculate_temperature_distribution heat_input material_props travel_speed =
     (let k = thermal_conductivity material_props;
          rho = density material_props;
          cp = specific_heat_solid material_props
      in if rho * cp = 0 then Inl ZeroDivisionError
         else
           (let alpha = k / (rho * cp);
                q = heat_input * 1000;
                v = travel_speed / 1000;
                x_mm = linspace (-20) 40 61;
                y_mm = linspace (-15) 15 31;
                (X_mm, Y_mm) = meshgrid x_mm y_mm;
                X_m = map (map (\<lambda>c. c / 1000)) X_mm;
                Y_m = map (map (\<lambda>c. c / 1000)) Y_mm
            in case sequence_err
                 (map (\<lambda>(xrow, yrow).
                    sequence_err
                      (map (\<lambda>(x_m, y_m). point_temperature q k v alpha x_m y_m)
                         (zip xrow yrow)))
                    (zip X_m Y_m)) of
                 Inl e \<Rightarrow> Inl e
               | Inr T0 \<Rightarrow>
                   (let T = map (map (\<lambda>t. min t 3500)) T0
                    in Inr \<lparr>x_axis = x_mm, y_axis = y_mm, X_grid = X_mm, Y_grid = Y_mm,
                              temperature = T,
                              max_temp = Max (set (concat T)),
                              min_temp = Min (set (concat T))\<rparr>)))"

subsection \<open>Sensitivity analysis\<close>

record sensitivity_result =
  parameter :: string
  width_sensitivity :: real
  penetration_sensitivity :: real
  base_value :: real

text \<open>
  The heat inputs of one loop iteration: the named parameter scaled by \<open>factor\<close>, the
  other three at their base values.
\<close>

definition varied_heat_input ::
    "string \<Rightarrow> real \<Rightarrow> real \<Rightarrow> real \<Rightarrow> real \<Rightarrow> real \<Rightarrow> real \<Rightarrow> error + real" where
  "varied_heat_input param_name base_val factor base_current base_voltage base_speed
      arc_efficiency =
     (if param_name = ''current'' then
        calculate_heat_input (base_val * factor) base_voltage base_speed arc_efficiency
      else if param_name = ''voltage'' then
        calculate_heat_input base_current (base_val * factor) base_speed arc_efficiency
      else if param_name = ''travel_speed'' then
        calculate_heat_input base_current base_voltage (base_val * factor) arc_efficiency
      else
        calculate_heat_input base_current base_voltage base_speed (base_val * factor))"

text \<open>The body of the loop over the four parameters.\<close>

definition sensitivity_entry ::
    "weld_pool_geometry \<Rightarrow> real \<Rightarrow> real \<Rightarrow> real \<Rightarrow> real \<Rightarrow> material_props \<Rightarrow> real \<Rightarrow>
     string \<times> real \<Rightarrow> error + sensitivity_result" where
  "sensitivity_entry base_pool base_current base_voltage base_speed arc_efficiency
      material_props plate_thickness entry =
     (let variation = 0.1;
          param_name = fst entry;
          base_val = snd entry
      in case varied_heat_input param_name base_val (1 + variation)
                base_current base_voltage base_speed arc_efficiency of
           Inl e \<Rightarrow> Inl e
         | Inr heat_input_high \<Rightarrow>
        (case varied_heat_input param_name base_val (1 - variation)
                base_current base_voltage base_speed arc_efficiency of
           Inl e \<Rightarrow> Inl e
         | Inr heat_input_low \<Rightarrow>
        (case calculate_weld_pool_geometry heat_input_high material_props plate_thickness of
           Inl e \<Rightarrow> Inl e
         | Inr pool_high \<Rightarrow>
        (case calculate_weld_pool_geometry heat_input_low material_props plate_thickness of
           Inl e \<Rightarrow> Inl e
         | Inr pool_low \<Rightarrow>
           if 2 * variation * base_val = 0 then Inl ZeroDivisionError
           else if width base_pool = 0 then Inl ZeroDivisionError
           else if penetration base_pool = 0 then Inl ZeroDivisionError
           else Inr \<lparr>parameter = param_name,
                     width_sensitivity =
                       ((width pool_high - width pool_low) / (2 * variation * base_val))
                         * (base_val / width base_pool),
                     penetration_sensitivity =
                       ((penetration pool_high - penetration pool_low)
                          / (2 * variation * base_val))
                         * (base_val / penetration base_pool),
                     base_value = base_val\<rparr>))))"

definition sensitivity_analysis ::
    "real \<Rightarrow> real \<Rightarrow> real \<Rightarrow> real \<Rightarrow> material_props \<Rightarrow> real \<Rightarrow>
     error + sensitivity_result list" where
  "sensitivity_analysis base_current base_voltage base_speed arc_efficiency
      material_props plate_thickness =
     (case calculate_heat_input base_current base_voltage base_speed arc_efficiency of
        Inl e \<Rightarrow> Inl e
      | Inr base_heat_input \<Rightarrow>
     (case calculate_weld_pool_geometry base_heat_input material_props plate_thickness of
        Inl e \<Rightarrow> Inl e
      | Inr base_pool \<Rightarrow>
          (let parameters =
                 [(''current'', base_current), (''voltage'', base_voltage),
                  (''travel_speed'', base_speed), (''arc_efficiency'', arc_efficiency)]
           in sequence_err
                (map (sensitivity_entry base_pool base_current base_voltage base_speed
                        arc_efficiency material_props plate_thickness)
                   parameters))))"

section \<open>Binary64 arithmetic\<close>

text \<open>
  \<open>round_half_even\<close> rounds a real number to the nearest integer, a tie to the even
  neighbour. \<open>b64_ulp x\<close> is the spacing of the binary64 values around \<open>x\<close>: the
  exponent of \<open>x\<close>, not below \<open>- 1022\<close>, less the 52 fraction bits. \<open>fl x\<close> is the
  binary64 value nearest to \<open>x\<close>.
\<close>

definition round_half_even :: "real \<Rightarrow> int" where
  "round_half_even y =
     (let f = \<lfloor>y\<rfloor>; d = y - of_int f
      in if d < 1 / 2 then f
         else if 1 / 2 < d then f + 1
         else if even f then f else f + 1)"

definition b64_ulp :: "real \<Rightarrow> real" where
  "b64_ulp x = 2 powi (max \<lfloor>log 2 \<bar>x\<bar>\<rfloor> (- 1022) - 52)"

definition fl :: "real \<Rightarrow> real" where
  "fl x = of_int (round_half_even (x / b64_ulp x)) * b64_ulp x"

text \<open>\<open>np.pi\<close>, the binary64 value nearest to \<open>pi\<close>.\<close>

definition pi_b64 :: real where
  "pi_b64 = 884279719003555 / 281474976710656"

text \<open>
  \<open>calculate_heat_input\<close> in binary64: each product and the quotient are rounded, in the
  order in which Python evaluates them.
\<close>

definition calculate_heat_input_b64 :: "real \<Rightarrow> real \<Rightarrow> real \<Rightarrow> real \<Rightarrow> error + real" where
  "calculate_heat_input_b64 current voltage travel_speed arc_efficiency =
     (let travel_speed_mm_min = fl (travel_speed * 60)
      in if travel_speed_mm_min = 0 then Inl ZeroDivisionError
         else Inr (fl (fl (fl (fl (arc_efficiency * voltage) * current) * 60)
                         / travel_speed_mm_min)))"

text \<open>
  \<open>calculate_weld_pool_geometry\<close> in binary64, with the same intermediate values as the
  exact embedding. The literals \<open>3.2\<close>, \<open>0.8\<close>, \<open>0.6\<close> and \<open>0.9\<close> are not binary64
  values and stand for the nearest ones; \<open>2.5\<close>, \<open>1000\<close>, \<open>298\<close>, \<open>3\<close> and \<open>2\<close> are
  exact.
\<close>

definition l_c_b64 :: "real \<Rightarrow> material_props \<Rightarrow> real" where
  "l_c_b64 heat_input material_props =
     (let k = thermal_conductivity material_props;
          T_m = liquidus_temp material_props;
          T_0 = 298;
          q = fl (heat_input * 1000);
          delta_T = fl (T_m - T_0)
      in fl (q / fl (fl (fl (2 * pi_b64) * k) * delta_T)))"

definition raw_width_b64 :: "real \<Rightarrow> real" where
  "raw_width_b64 l_c = fl (fl (2.5 * l_c) * 1000)"

definition raw_penetration_b64 :: "real \<Rightarrow> real \<Rightarrow> real" where
  "raw_penetration_b64 l_c plate_thickness =
     (if plate_thickness > fl (3 * raw_width_b64 l_c) then fl (fl (fl 0.8 * l_c) * 1000)
      else min (fl (fl (fl 0.6 * l_c) * 1000)) (fl (plate_thickness * fl 0.9)))"

definition calculate_weld_pool_geometry_b64 ::
    "real \<Rightarrow> material_props \<Rightarrow> real \<Rightarrow> error + weld_pool_geometry" where
  "calculate_weld_pool_geometry_b64 heat_input material_props plate_thickness =
     (let k = thermal_conductivity material_props;
          rho = density material_props;
          cp = specific_heat_solid material_props;
          T_m = liquidus_temp material_props;
          T_0 = 298
      in if fl (rho * cp) = 0 then Inl ZeroDivisionError
         else if fl (fl (fl (2 * pi_b64) * k) * fl (T_m - T_0)) = 0
           then Inl ZeroDivisionError
         else
           (let l_c = l_c_b64 heat_input material_props;
                width0 = raw_width_b64 l_c;
                length0 = fl (fl 3.2 * width0);
                penetration0 = raw_penetration_b64 l_c plate_thickness;
                penetration1 = min penetration0 plate_thickness;
                width1 = min width0 (fl (plate_thickness * 2))
            in if width1 = 0 then Inl ZeroDivisionError
               else if fl (penetration1 + 3) = 0 then Inl ZeroDivisionError
               else Inr \<lparr>width = width1,
                         length_mm = length0,
                         penetration = penetration1,
                         aspect_ratio = fl (length0 / width1),
                         dilution_ratio = fl (penetration1 / fl (penetration1 + 3)),
                         volume = fl (fl (fl (fl (pi_b64 / 6) * width1) * length0)
                                        * penetration1),
                         pool_heat_input = heat_input,
                         characteristic_length = fl (l_c * 1000)\<rparr>))"

text \<open>
  Two predicates for the rounding analysis: \<open>b64_range a b x\<close> places \<open>x\<close> between
  \<open>2 ^ a\<close> and \<open>2 ^ b\<close>, and \<open>b64_near n x y\<close> places \<open>x\<close> within \<open>n\<close> roundings of
  \<open>y\<close>.
\<close>

definition b64_range :: "int \<Rightarrow> int \<Rightarrow> real \<Rightarrow> bool" where
  "b64_range a b x \<longleftrightarrow> 2 powi a \<le> x \<and> x \<le> 2 powi b"

definition b64_near :: "nat \<Rightarrow> real \<Rightarrow> real \<Rightarrow> bool" where
  "b64_near n x y \<longleftrightarrow> (1 - 1 / 2 ^ 53) ^ n * y \<le> x \<and> x \<le> (1 + 1 / 2 ^ 53) ^ n * y"

section \<open>Properties of the material lookup\<close>

lemma map_of_properties_db:
  "map_of properties_db name =
     (if name = ''Steel'' then Some steel
      else if name = ''Aluminum'' then Some aluminum
      else if name = ''Stainless Steel'' then Some stainless_steel
      else if name = ''Titanium'' then Some titanium
      else None)"
  by (simp add: properties_db_def)

lemma get_properties_cases:
  "get_properties name =
     (if name = ''Aluminum'' then Inr aluminum
      else if name = ''Stainless Steel'' then Inr stainless_steel
      else if name = ''Titanium'' then Inr titanium
      else Inr steel)"
  by (simp add: get_properties_def map_of_properties_db)

lemma valid_material_catalog:
  "valid_material steel" "valid_material aluminum"
  "valid_material stainless_steel" "valid_material titanium"
  by (simp_all add: valid_material_def steel_def aluminum_def stainless_steel_def
      titanium_def)

text \<open>
  Claim C6. A material name outside the catalogue of four is answered with the record of
  \<open>"Steel"\<close>: the lookup of such a name and the lookup of \<open>"Steel"\<close> return the same
  result, which is the steel record.
\<close>

theorem get_properties_unknown:
  assumes "name \<notin> {''Steel'', ''Aluminum'', ''Stainless Steel'', ''Titanium''}"
  shows "get_properties name = get_properties ''Steel'' \<and>
         get_properties ''Steel'' = Inr steel"
  using assms by (simp add: get_properties_cases)

theorem get_properties_unknown_witness:
  "''Unobtainium'' \<notin> {''Steel'', ''Aluminum'', ''Stainless Steel'', ''Titanium''} \<and>
   get_properties ''Unobtainium'' = get_properties ''Steel''"
  using get_properties_unknown [of "''Unobtainium''"] by simp

text \<open>
  Claim C10. The lookup is total on strings: for every name it returns a record (it never
  raises), and in that record the conductivity, the density and both specific heats are
  positive and the liquidus temperature is above the solidus temperature, which is above
  298 K. The record type has the twelve property fields.
\<close>

theorem get_properties_total:
  "\<exists>props. get_properties name = Inr props \<and>
     0 < thermal_conductivity props \<and> 0 < density props \<and>
     0 < specific_heat_solid props \<and> 0 < specific_heat_liquid props \<and>
     298 < solidus_temp props \<and> solidus_temp props < liquidus_temp props \<and>
     valid_material props"
  using valid_material_catalog
  by (auto simp add: get_properties_cases valid_material_def)

section \<open>Properties of binary64 rounding\<close>

lemma round_half_even_cases:
  "round_half_even y = \<lfloor>y\<rfloor> \<or> round_half_even y = \<lfloor>y\<rfloor> + 1"
  by (simp add: round_half_even_def Let_def)

lemma round_half_even_near: "\<bar>of_int (round_half_even y) - y\<bar> \<le> 1 / 2"
proof -
  have "of_int \<lfloor>y\<rfloor> \<le> y" "y < of_int \<lfloor>y\<rfloor> + 1" by linarith+
  then show ?thesis
    by (auto simp add: round_half_even_def Let_def abs_le_iff)
qed

lemma round_half_even_eqI:
  assumes "\<bar>y - of_int n\<bar> < 1 / 2"
  shows "round_half_even y = n"
proof -
  have "\<bar>of_int (round_half_even y) - y\<bar> \<le> 1 / 2" by (rule round_half_even_near)
  then have "\<bar>(of_int (round_half_even y) :: real) - of_int n\<bar> < 1" using assms by linarith
  then have "\<bar>round_half_even y - n\<bar> < 1"
    by (metis of_int_abs of_int_diff of_int_less_1_iff)
  then show ?thesis by simp
qed

lemma round_half_even_ge:
  assumes "of_int n \<le> y"
  shows "n \<le> round_half_even y"
proof -
  have "n \<le> \<lfloor>y\<rfloor>" using assms by (simp add: le_floor_iff)
  then show ?thesis using round_half_even_cases [of y] by auto
qed

lemma round_half_even_le:
  assumes "y \<le> of_int n"
  shows "round_half_even y \<le> n"
proof (cases "y = of_int n")
  case True
  then have "round_half_even y = n"
    by (intro round_half_even_eqI) simp
  then show ?thesis by simp
next
  case False
  then have "y < of_int n" using assms by simp
  then have "\<lfloor>y\<rfloor> < n" by (simp add: floor_less_iff)
  then show ?thesis using round_half_even_cases [of y] by auto
qed

lemma powr_of_int_powi: "2 powr (of_int e) = (2::real) powi e"
  by (simp add: powr_real_of_int power_int_def power_inverse inverse_eq_divide power_one_over)

lemma powi_two_pos_le: "(2::real) powi e \<le> x \<Longrightarrow> 0 < x"
proof -
  assume "(2::real) powi e \<le> x"
  moreover have "(0::real) < 2 powi e" by simp
  ultimately show "0 < x" by linarith
qed

lemma floor_log2_eqI:
  assumes "(2::real) powi e \<le> a" "a < 2 powi (e + 1)"
  shows "\<lfloor>log 2 a\<rfloor> = e"
proof -
  have "(0::real) < 2 powi e" by simp
  then have a: "0 < a" using assms(1) by linarith
  have "of_int e \<le> log 2 a"
    using a assms(1) by (simp add: le_log_iff powr_of_int_powi)
  moreover have "log 2 a < of_int (e + 1)"
    using a assms(2) by (simp add: log_less_iff powr_of_int_powi del: of_int_add)
  ultimately show ?thesis by (intro floor_unique) simp_all
qed

lemma floor_log2_bounds:
  assumes "0 < a"
  shows "(2::real) powi \<lfloor>log 2 a\<rfloor> \<le> a" "a < 2 powi (\<lfloor>log 2 a\<rfloor> + 1)"
proof -
  have "of_int \<lfloor>log 2 a\<rfloor> \<le> log 2 a" by simp
  then show "(2::real) powi \<lfloor>log 2 a\<rfloor> \<le> a"
    using assms by (simp add: le_log_iff powr_of_int_powi del: of_int_floor_le)
  have "log 2 a < of_int (\<lfloor>log 2 a\<rfloor> + 1)" by simp
  then show "a < 2 powi (\<lfloor>log 2 a\<rfloor> + 1)"
    using assms by (simp add: log_less_iff powr_of_int_powi del: of_int_add)
qed

lemma powi_two_less_imp: "(2::real) powi a < 2 powi b \<Longrightarrow> a < b"
  by (rule ccontr) (use power_int_increasing [of b a "2::real"] in simp)

lemma powi_two_split: "(2::real) powi e = 2 ^ 52 * 2 powi (e - 52)"
  using power_int_add [of "2::real" 52 "e - 52"] by simp

lemma powi_two_split53: "(2::real) powi (e + 1) = 2 ^ 53 * 2 powi (e - 52)"
  using power_int_add [of "2::real" 53 "e - 52"] by (simp add: add.commute)

lemma b64_ulp_normal:
  assumes "- 1022 \<le> e" "(2::real) powi e \<le> \<bar>x\<bar>" "\<bar>x\<bar> < 2 powi (e + 1)"
  shows "b64_ulp x = 2 powi (e - 52)"
proof -
  have "\<lfloor>log 2 \<bar>x\<bar>\<rfloor> = e" using assms(2,3) by (rule floor_log2_eqI)
  then show ?thesis using assms(1) by (simp add: b64_ulp_def max_def)
qed

lemma fl_normalI:
  assumes "- 1022 \<le> e" "(2::real) powi e \<le> \<bar>x\<bar>" "\<bar>x\<bar> < 2 powi (e + 1)"
    and "\<bar>x / 2 powi (e - 52) - of_int n\<bar> < 1 / 2"
  shows "fl x = of_int n * 2 powi (e - 52)"
  using round_half_even_eqI [OF assms(4)]
  by (simp add: fl_def b64_ulp_normal [OF assms(1-3)])

lemma exponent_normal:
  assumes "(2::real) powi (- 1022) \<le> x"
  shows "- 1022 \<le> \<lfloor>log 2 x\<rfloor>"
proof -
  have x: "0 < x" using assms by (rule powi_two_pos_le)
  have "(2::real) powi (- 1022) < 2 powi (\<lfloor>log 2 x\<rfloor> + 1)"
    using assms floor_log2_bounds(2) [OF x] by linarith
  then have "- 1022 < \<lfloor>log 2 x\<rfloor> + 1" by (rule powi_two_less_imp)
  then show ?thesis by simp
qed

lemma fl_pos_normal:
  assumes "(2::real) powi (- 1022) \<le> x"
  obtains e where "- 1022 \<le> e" "2 powi e \<le> x" "x < 2 powi (e + 1)"
    "fl x = of_int (round_half_even (x / 2 powi (e - 52))) * 2 powi (e - 52)"
proof -
  have x: "0 < x" using assms by (rule powi_two_pos_le)
  let ?e = "\<lfloor>log 2 x\<rfloor>"
  have e: "- 1022 \<le> ?e" using assms by (rule exponent_normal)
  have b: "2 powi ?e \<le> x" "x < 2 powi (?e + 1)" using x by (rule floor_log2_bounds)+
  have "b64_ulp x = 2 powi (?e - 52)"
    using e b x by (intro b64_ulp_normal) simp_all
  then have "fl x = of_int (round_half_even (x / 2 powi (?e - 52))) * 2 powi (?e - 52)"
    by (simp add: fl_def)
  then show thesis using that e b by blast
qed

lemma fl_rel:
  assumes "(2::real) powi (- 1022) \<le> x"
  shows "\<bar>fl x - x\<bar> \<le> x / 2 ^ 53"
proof -
  obtain e where e: "- 1022 \<le> e" "2 powi e \<le> x" "x < 2 powi (e + 1)"
    "fl x = of_int (round_half_even (x / 2 powi (e - 52))) * 2 powi (e - 52)"
    using assms by (rule fl_pos_normal)
  define u :: real where "u = 2 powi (e - 52)"
  have u: "0 < u" by (simp add: u_def)
  have s52: "2 powi e = 2 ^ 52 * u" unfolding u_def by (rule powi_two_split)
  have s53: "2 powi (e + 1) = 2 ^ 53 * u" unfolding u_def by (rule powi_two_split53)
  have "\<bar>of_int (round_half_even (x / u)) - x / u\<bar> \<le> 1 / 2" by (rule round_half_even_near)
  then have m: "\<bar>of_int (round_half_even (x / u)) - x / u\<bar> * u \<le> 1 / 2 * u"
    using u by (intro mult_right_mono) simp_all
  have eq: "\<bar>of_int (round_half_even (x / u)) - x / u\<bar> * u
                   = \<bar>of_int (round_half_even (x / u)) * u - x\<bar>"
  proof -
    have "(of_int (round_half_even (x / u)) - x / u) * u
            = of_int (round_half_even (x / u)) * u - x"
      using u by (simp add: left_diff_distrib)
    then have "\<bar>of_int (round_half_even (x / u)) * u - x\<bar>
            = \<bar>of_int (round_half_even (x / u)) - x / u\<bar> * \<bar>u\<bar>"
      by (simp only: abs_mult [symmetric])
    then show ?thesis using u by simp
  qed
  have f: "fl x = of_int (round_half_even (x / u)) * u" by (simp only: e(4) u_def)
  have "\<bar>fl x - x\<bar> \<le> 1 / 2 * u" using m unfolding eq f .
  moreover have "2 ^ 52 * u \<le> x" using e(2) by (simp add: s52)
  ultimately show ?thesis by simp
qed

lemma fl_ge:
  assumes "- 1022 \<le> a" "(2::real) powi a \<le> x"
  shows "2 powi a \<le> fl x"
proof -
  have "(2::real) powi (- 1022) \<le> 2 powi a" using assms(1) by (intro power_int_increasing) simp_all
  then have n: "(2::real) powi (- 1022) \<le> x" using assms(2) by linarith
  obtain e where e: "- 1022 \<le> e" "2 powi e \<le> x" "x < 2 powi (e + 1)"
    "fl x = of_int (round_half_even (x / 2 powi (e - 52))) * 2 powi (e - 52)"
    using n by (rule fl_pos_normal)
  define u :: real where "u = 2 powi (e - 52)"
  have u: "0 < u" by (simp add: u_def)
  have s52: "2 powi e = 2 ^ 52 * u" unfolding u_def by (rule powi_two_split)
  have s53: "2 powi (e + 1) = 2 ^ 53 * u" unfolding u_def by (rule powi_two_split53)
  have "2 powi a < (2::real) powi (e + 1)" using assms(2) e(3) by linarith
  then have "a < e + 1" by (rule powi_two_less_imp)
  then have ae: "(2::real) powi a \<le> 2 powi e" by (intro power_int_increasing) simp_all
  have "of_int (2 ^ 52) \<le> x / u"
    using e(2) u by (simp add: s52 pos_le_divide_eq)
  then have "2 ^ 52 \<le> round_half_even (x / u)" by (rule round_half_even_ge)
  then have "(2 ^ 52 :: real) \<le> of_int (round_half_even (x / u))"
    by (metis of_int_le_iff of_int_numeral of_int_power)
  then have "2 ^ 52 * u \<le> of_int (round_half_even (x / u)) * u"
    using u by (intro mult_right_mono) simp_all
  then have "2 powi e \<le> fl x" by (simp add: e(4) [folded u_def] s52)
  then show ?thesis using ae by linarith
qed

lemma fl_le:
  assumes "(2::real) powi (- 1022) \<le> x" "x \<le> 2 powi b"
  shows "fl x \<le> 2 powi b"
proof -
  obtain e where e: "- 1022 \<le> e" "2 powi e \<le> x" "x < 2 powi (e + 1)"
    "fl x = of_int (round_half_even (x / 2 powi (e - 52))) * 2 powi (e - 52)"
    using assms(1) by (rule fl_pos_normal)
  define u :: real where "u = 2 powi (e - 52)"
  have u: "0 < u" by (simp add: u_def)
  have s52: "2 powi e = 2 ^ 52 * u" unfolding u_def by (rule powi_two_split)
  have s53: "2 powi (e + 1) = 2 ^ 53 * u" unfolding u_def by (rule powi_two_split53)
  have "2 powi e < (2::real) powi (b + 1)"
  proof -
    have "(2::real) powi b < 2 powi (b + 1)" by (intro power_int_strict_increasing) simp_all
    then show ?thesis using e(2) assms(2) by linarith
  qed
  then have eb: "e \<le> b" using powi_two_less_imp [of e "b + 1"] by simp
  show ?thesis
  proof (cases "e = b")
    case True
    then have "x = 2 powi e" using e(2) assms(2) by simp
    then have "x / u = of_int (2 ^ 52)" using u by (simp add: s52)
    then have "round_half_even (x / u) = 2 ^ 52"
      by (intro round_half_even_eqI) simp
    then have "fl x = 2 ^ 52 * u" by (simp add: e(4) [folded u_def])
    then show ?thesis using True s52 by simp
  next
    case False
    then have "e + 1 \<le> b" using eb by simp
    then have le: "(2::real) powi (e + 1) \<le> 2 powi b" by (intro power_int_increasing) simp_all
    have "x / u \<le> of_int (2 ^ 53)"
      using e(3) u by (simp add: s53 pos_divide_le_eq)
    then have "round_half_even (x / u) \<le> 2 ^ 53" by (rule round_half_even_le)
    then have "of_int (round_half_even (x / u)) \<le> (2 ^ 53 :: real)"
      by (metis of_int_le_iff of_int_numeral of_int_power)
    then have "of_int (round_half_even (x / u)) * u \<le> 2 ^ 53 * u"
      using u by (intro mult_right_mono) simp_all
    then have "fl x \<le> 2 powi (e + 1)" by (simp add: e(4) [folded u_def] s53)
    then show ?thesis using le by linarith
  qed
qed

lemma b64_range_pos: "b64_range a b x \<Longrightarrow> 0 < x"
  unfolding b64_range_def using powi_two_pos_le [of a x] by blast

lemma b64_range_normal:
  assumes "b64_range a b x" "- 1022 \<le> a"
  shows "2 powi (- 1022) \<le> x"
proof -
  have "(2::real) powi (- 1022) \<le> 2 powi a"
    using assms(2) by (intro power_int_increasing) simp_all
  then show ?thesis using assms(1) unfolding b64_range_def by linarith
qed

lemma b64_range_mult:
  assumes "b64_range a b x" "b64_range c d y"
  shows "b64_range (a + c) (b + d) (x * y)"
proof -
  have "2 powi a * 2 powi c \<le> x * y"
    using assms less_imp_le [OF b64_range_pos [OF assms(1)]]
    unfolding b64_range_def by (intro mult_mono) simp_all
  moreover have "x * y \<le> 2 powi b * 2 powi d"
    using assms less_imp_le [OF b64_range_pos [OF assms(1)]]
      less_imp_le [OF b64_range_pos [OF assms(2)]]
    unfolding b64_range_def by (intro mult_mono) simp_all
  ultimately show ?thesis
    unfolding b64_range_def by (simp add: power_int_add)
qed

lemma b64_range_divide:
  assumes "b64_range a b x" "b64_range c d y"
  shows "b64_range (a - d) (b - c) (x / y)"
proof -
  have y: "0 < y" using assms(2) by (rule b64_range_pos)
  have x: "0 < x" using assms(1) by (rule b64_range_pos)
  have "2 powi a / 2 powi d \<le> x / y"
    using assms y less_imp_le [OF x] unfolding b64_range_def by (intro frac_le) simp_all
  moreover have "x / y \<le> 2 powi b / 2 powi c"
    using assms less_imp_le [OF x] unfolding b64_range_def by (intro frac_le) simp_all
  ultimately show ?thesis
    unfolding b64_range_def by (simp add: power_int_diff)
qed

lemma b64_range_fl:
  assumes "b64_range a b x" "- 1022 \<le> a"
  shows "b64_range a b (fl x)"
proof -
  have "2 powi a \<le> fl x"
    using assms unfolding b64_range_def by (intro fl_ge) simp_all
  moreover have "fl x \<le> 2 powi b"
    using b64_range_normal [OF assms] assms(1) unfolding b64_range_def
    by (intro fl_le) simp_all
  ultimately show ?thesis unfolding b64_range_def by simp
qed

lemma b64_range_min:
  assumes "b64_range a b x" "b64_range c d y"
  shows "b64_range (min a c) (max b d) (min x y)"
proof -
  have "(2::real) powi (min a c) \<le> 2 powi a" "(2::real) powi (min a c) \<le> 2 powi c"
    "(2::real) powi b \<le> 2 powi (max b d)" "(2::real) powi d \<le> 2 powi (max b d)"
    by (simp_all add: power_int_increasing)
  then show ?thesis
    using assms unfolding b64_range_def by (auto simp add: min_def)
qed

lemma b64_near_refl: "b64_near 0 x x"
  by (simp add: b64_near_def)

lemma fl_bounds:
  assumes "(2::real) powi (- 1022) \<le> x"
  shows "(1 - 1 / 2 ^ 53) * x \<le> fl x" "fl x \<le> (1 + 1 / 2 ^ 53) * x"
proof -
  have e: "(1 - 1 / 2 ^ 53) * x = x - x / 2 ^ 53" "(1 + 1 / 2 ^ 53) * x = x + x / 2 ^ 53"
    by (simp_all add: algebra_simps)
  have r: "\<bar>fl x - x\<bar> \<le> x / 2 ^ 53" using assms by (rule fl_rel)
  show "(1 - 1 / 2 ^ 53) * x \<le> fl x" unfolding e(1) using r by linarith
  show "fl x \<le> (1 + 1 / 2 ^ 53) * x" unfolding e(2) using r by linarith
qed

lemma b64_near_fl:
  assumes "b64_near n x y" "(2::real) powi (- 1022) \<le> x"
  shows "b64_near (Suc n) (fl x) y"
proof -
  have "(1 - 1 / 2 ^ 53) * ((1 - 1 / 2 ^ 53) ^ n * y) \<le> (1 - 1 / 2 ^ 53) * x"
    using assms(1) unfolding b64_near_def by (intro mult_left_mono) simp_all
  then have lo: "(1 - 1 / 2 ^ 53) ^ Suc n * y \<le> (1 - 1 / 2 ^ 53) * x"
    by (simp only: power_Suc mult.assoc)
  have "(1 + 1 / 2 ^ 53) * x \<le> (1 + 1 / 2 ^ 53) * ((1 + 1 / 2 ^ 53) ^ n * y)"
    using assms(1) unfolding b64_near_def by (intro mult_left_mono) simp_all
  then have hi: "(1 + 1 / 2 ^ 53) * x \<le> (1 + 1 / 2 ^ 53) ^ Suc n * y"
    by (simp only: power_Suc mult.assoc)
  show ?thesis
    unfolding b64_near_def using lo hi fl_bounds [OF assms(2)] by linarith
qed

lemma b64_near_mult_right:
  assumes "b64_near n x y" "0 \<le> c"
  shows "b64_near n (x * c) (y * c)"
proof -
  have "(1 - 1 / 2 ^ 53) ^ n * y * c \<le> x * c" "x * c \<le> (1 + 1 / 2 ^ 53) ^ n * y * c"
    using assms unfolding b64_near_def by (simp_all add: mult_right_mono)
  then show ?thesis unfolding b64_near_def by (simp only: mult.assoc)
qed

lemma b64_near_divide_right:
  assumes "b64_near n x y" "0 < c"
  shows "b64_near n (x / c) (y / c)"
  using b64_near_mult_right [OF assms(1), of "inverse c"] assms(2)
  by (simp add: divide_inverse)

lemma b64_near_quotient:
  assumes c: "b64_near n c N" and d: "b64_near 1 d D" and N: "0 < N" and D: "0 < D"
  shows "(1 - 1 / 2 ^ 53) ^ n / (1 + 1 / 2 ^ 53) * (N / D) \<le> c / d"
    and "c / d \<le> (1 + 1 / 2 ^ 53) ^ n / (1 - 1 / 2 ^ 53) * (N / D)"
proof -
  have dl: "(1 - 1 / 2 ^ 53) * D \<le> d" and du: "d \<le> (1 + 1 / 2 ^ 53) * D"
    using d unfolding b64_near_def by simp_all
  have cl: "(1 - 1 / 2 ^ 53) ^ n * N \<le> c" and cu: "c \<le> (1 + 1 / 2 ^ 53) ^ n * N"
    using c unfolding b64_near_def by simp_all
  have p: "(0::real) < 1 - 1 / 2 ^ 53" by simp
  have dlp: "0 < (1 - 1 / 2 ^ 53) * D" using D p by (rule mult_pos_pos [rotated])
  have dp: "0 < d" using dlp dl by linarith
  have cl0: "0 \<le> (1 - 1 / 2 ^ 53) ^ n * N" using N by simp
  have c0: "0 \<le> c" using cl0 cl by linarith
  have cu0: "0 \<le> (1 + 1 / 2 ^ 53) ^ n * N" using N by simp
  have "((1 - 1 / 2 ^ 53) ^ n * N) / ((1 + 1 / 2 ^ 53) * D) \<le> c / d"
    using c0 cl dp du by (rule frac_le)
  then show "(1 - 1 / 2 ^ 53) ^ n / (1 + 1 / 2 ^ 53) * (N / D) \<le> c / d"
    by (simp only: times_divide_times_eq)
  have "c / d \<le> ((1 + 1 / 2 ^ 53) ^ n * N) / ((1 - 1 / 2 ^ 53) * D)"
    using cu0 cu dlp dl by (rule frac_le)
  then show "c / d \<le> (1 + 1 / 2 ^ 53) ^ n / (1 - 1 / 2 ^ 53) * (N / D)"
    by (simp only: times_divide_times_eq)
qed

lemma rounding_constants:
  "(1 - 1 / 2 ^ 50 :: real) \<le> (1 - 1 / 2 ^ 53) * ((1 - 1 / 2 ^ 53) ^ 3 / (1 + 1 / 2 ^ 53))"
  "(1 + 1 / 2 ^ 53) * ((1 + 1 / 2 ^ 53) ^ 3 / (1 - 1 / 2 ^ 53)) \<le> (1 + 1 / 2 ^ 50 :: real)"
  "(1 - 1 / 2 ^ 51 :: real) \<le> (1 - 1 / 2 ^ 53) ^ 3"
  "(1 + 1 / 2 ^ 53) ^ 3 \<le> (1 + 1 / 2 ^ 51 :: real)"
  "(1 :: real) < (1 - 1 / 2 ^ 53) ^ 3 * (1 + 1 / 2 ^ 50)"
  by (simp_all add: power3_eq_cube)


section \<open>Properties of the heat input\<close>

lemma heat_input_b64_error:
  assumes I: "1 / 2 ^ 200 \<le> current" "current \<le> 2 ^ 200"
    and V: "1 / 2 ^ 200 \<le> voltage" "voltage \<le> 2 ^ 200"
    and S: "1 / 2 ^ 200 \<le> travel_speed" "travel_speed \<le> 2 ^ 200"
    and E: "1 / 2 ^ 200 \<le> arc_efficiency" "arc_efficiency \<le> 1"
  shows "\<exists>r. calculate_heat_input_b64 current voltage travel_speed arc_efficiency = Inr r \<and>
           \<bar>r - arc_efficiency * voltage * current / travel_speed\<bar>
             \<le> (arc_efficiency * voltage * current / travel_speed) / 2 ^ 50"
proof -
  let ?exact = "arc_efficiency * voltage * current / travel_speed"
  have rI: "b64_range (- 200) 200 current" using I by (simp add: b64_range_def)
  have rV: "b64_range (- 200) 200 voltage" using V by (simp add: b64_range_def)
  have rS: "b64_range (- 200) 200 travel_speed" using S by (simp add: b64_range_def)
  have rE: "b64_range (- 200) 0 arc_efficiency" using E by (simp add: b64_range_def)
  have r60: "b64_range 5 6 60" by (simp add: b64_range_def)
  have pI: "0 < current" and pV: "0 < voltage" and pS: "0 < travel_speed"
    and pE: "0 < arc_efficiency"
    using rI rV rS rE by (simp_all add: b64_range_pos)
  define a where "a = fl (arc_efficiency * voltage)"
  define b where "b = fl (a * current)"
  define c where "c = fl (b * 60)"
  define d where "d = fl (travel_speed * 60)"
  define r where "r = fl (c / d)"
  have x1: "b64_range (- 400) 200 (arc_efficiency * voltage)"
    using b64_range_mult [OF rE rV] by simp
  have ra: "b64_range (- 400) 200 a"
    unfolding a_def using x1 by (rule b64_range_fl) simp
  have na: "b64_near 1 a (arc_efficiency * voltage)"
    unfolding a_def using b64_near_fl [OF b64_near_refl b64_range_normal [OF x1]] by simp
  have x2: "b64_range (- 600) 400 (a * current)"
    using b64_range_mult [OF ra rI] by simp
  have rb: "b64_range (- 600) 400 b"
    unfolding b_def using x2 by (rule b64_range_fl) simp
  have m2: "b64_near 1 (a * current) (arc_efficiency * voltage * current)"
    using na pI by (intro b64_near_mult_right) simp_all
  have nb: "b64_near 2 b (arc_efficiency * voltage * current)"
    unfolding b_def using b64_near_fl [OF m2 b64_range_normal [OF x2]]
    by (simp add: numeral_2_eq_2)
  have x3: "b64_range (- 595) 406 (b * 60)"
    using b64_range_mult [OF rb r60] by simp
  have rc: "b64_range (- 595) 406 c"
    unfolding c_def using x3 by (rule b64_range_fl) simp
  have m3: "b64_near 2 (b * 60) (arc_efficiency * voltage * current * 60)"
    using nb by (intro b64_near_mult_right) simp_all
  have nc: "b64_near 3 c (arc_efficiency * voltage * current * 60)"
    unfolding c_def using b64_near_fl [OF m3 b64_range_normal [OF x3]]
    by (simp add: numeral_3_eq_3)
  have xd: "b64_range (- 195) 206 (travel_speed * 60)"
    using b64_range_mult [OF rS r60] by simp
  have rd: "b64_range (- 195) 206 d"
    unfolding d_def using xd by (rule b64_range_fl) simp
  have nd: "b64_near 1 d (travel_speed * 60)"
    unfolding d_def using b64_near_fl [OF b64_near_refl b64_range_normal [OF xd]] by simp
  have d0: "d \<noteq> 0" using b64_range_pos [OF rd] by simp
  have x5: "b64_range (- 801) 601 (c / d)"
    using b64_range_divide [OF rc rd] by simp
  have n5: "(2::real) powi (- 1022) \<le> c / d"
    using x5 by (rule b64_range_normal) simp
  have ex: "arc_efficiency * voltage * current * 60 / (travel_speed * 60) = ?exact"
    by simp
  have ep: "0 < ?exact" using pI pV pS pE by simp
  have q: "(1 - 1 / 2 ^ 53) ^ 3 / (1 + 1 / 2 ^ 53) * ?exact \<le> c / d"
      "c / d \<le> (1 + 1 / 2 ^ 53) ^ 3 / (1 - 1 / 2 ^ 53) * ?exact"
    using b64_near_quotient [OF nc nd] pI pV pS pE unfolding ex by simp_all
  have f: "(1 - 1 / 2 ^ 53) * (c / d) \<le> r" "r \<le> (1 + 1 / 2 ^ 53) * (c / d)"
    unfolding r_def using n5 by (rule fl_bounds)+
  have l1: "(1 - 1 / 2 ^ 53) * ((1 - 1 / 2 ^ 53) ^ 3 / (1 + 1 / 2 ^ 53) * ?exact)
          \<le> (1 - 1 / 2 ^ 53) * (c / d)"
    using q(1) by (intro mult_left_mono) simp_all
  have l2: "(1 - 1 / 2 ^ 50) * ?exact
          \<le> (1 - 1 / 2 ^ 53) * ((1 - 1 / 2 ^ 53) ^ 3 / (1 + 1 / 2 ^ 53)) * ?exact"
    using ep rounding_constants(1) by (intro mult_right_mono) simp_all
  have lo: "(1 - 1 / 2 ^ 50) * ?exact \<le> r"
    using l1 l2 [unfolded mult.assoc] f(1) by linarith
  have h1: "(1 + 1 / 2 ^ 53) * (c / d)
          \<le> (1 + 1 / 2 ^ 53) * ((1 + 1 / 2 ^ 53) ^ 3 / (1 - 1 / 2 ^ 53) * ?exact)"
    using q(2) by (intro mult_left_mono) simp_all
  have h2: "(1 + 1 / 2 ^ 53) * ((1 + 1 / 2 ^ 53) ^ 3 / (1 - 1 / 2 ^ 53)) * ?exact
          \<le> (1 + 1 / 2 ^ 50) * ?exact"
    using ep rounding_constants(2) by (intro mult_right_mono) simp_all
  have hi: "r \<le> (1 + 1 / 2 ^ 50) * ?exact"
    using h1 h2 [unfolded mult.assoc] f(2) by linarith
  have e1: "(1 - 1 / 2 ^ 50) * ?exact = ?exact - ?exact / 2 ^ 50"
    and e2: "(1 + 1 / 2 ^ 50) * ?exact = ?exact + ?exact / 2 ^ 50"
    by (simp_all add: algebra_simps)
  have "\<bar>r - ?exact\<bar> \<le> ?exact / 2 ^ 50"
    using lo hi unfolding e1 e2 by linarith
  moreover have "calculate_heat_input_b64 current voltage travel_speed arc_efficiency = Inr r"
    unfolding calculate_heat_input_b64_def Let_def
    using d0 by (simp add: r_def c_def b_def a_def d_def)
  ultimately show ?thesis by blast
qed

lemma heat_278_1: "fl (6 / 10) = 5404319552844595 / 9007199254740992"
proof -
  have "fl (6 / 10) = of_int 5404319552844595 * 2 powi (- 1 - 52)"
    by (rule fl_normalI) simp_all
  then show ?thesis by simp
qed

lemma heat_278_2: "fl ((5404319552844595 / 9007199254740992) * 23) = 7768709357214105 / 562949953421312"
proof -
  have "fl ((5404319552844595 / 9007199254740992) * 23) = of_int 7768709357214105 * 2 powi (3 - 52)"
    by (rule fl_normalI) simp_all
  then show ?thesis by simp
qed

lemma heat_278_3: "fl ((7768709357214105 / 562949953421312) * 278) = 2109083204399923 / 549755813888"
proof -
  have "fl ((7768709357214105 / 562949953421312) * 278) = of_int 8436332817599692 * 2 powi (11 - 52)"
    by (rule fl_normalI) simp_all
  then show ?thesis by simp
qed

lemma heat_278_4: "fl ((2109083204399923 / 549755813888) * 60) = 7909062016499711 / 34359738368"
proof -
  have "fl ((2109083204399923 / 549755813888) * 60) = of_int 7909062016499711 * 2 powi (17 - 52)"
    by (rule fl_normalI) simp_all
  then show ?thesis by simp
qed

lemma heat_278_5: "fl (12 * 60) = 720"
proof -
  have "fl (12 * 60) = of_int 6333186975989760 * 2 powi (9 - 52)"
    by (rule fl_normalI) simp_all
  then show ?thesis by simp
qed

lemma heat_278_6: "fl ((7909062016499711 / 34359738368) / 720) = 2812110939199897 / 8796093022208"
proof -
  have "fl ((7909062016499711 / 34359738368) / 720) = of_int 5624221878399794 * 2 powi (8 - 52)"
    by (rule fl_normalI) simp_all
  then show ?thesis by simp
qed

lemma heat_278_7: "fl ((5404319552844595 / 9007199254740992) * 23 * 278 / 12) = 5624221878399795 / 17592186044416"
proof -
  have "fl ((5404319552844595 / 9007199254740992) * 23 * 278 / 12) = of_int 5624221878399795 * 2 powi (8 - 52)"
    by (rule fl_normalI) simp_all
  then show ?thesis by simp
qed

lemma heat_200_1: "fl (7 / 10) = 3152519739159347 / 4503599627370496"
proof -
  have "fl (7 / 10) = of_int 6305039478318694 * 2 powi (- 1 - 52)"
    by (rule fl_normalI) simp_all
  then show ?thesis by simp
qed

lemma heat_200_2: "fl ((3152519739159347 / 4503599627370496) * 25) = 35 / 2"
proof -
  have "fl ((3152519739159347 / 4503599627370496) * 25) = of_int 4925812092436480 * 2 powi (4 - 52)"
    by (rule fl_normalI) simp_all
  then show ?thesis by simp
qed

lemma heat_200_3: "fl ((35 / 2) * 200) = 3500"
proof -
  have "fl ((35 / 2) * 200) = of_int 7696581394432000 * 2 powi (11 - 52)"
    by (rule fl_normalI) simp_all
  then show ?thesis by simp
qed

lemma heat_200_4: "fl (3500 * 60) = 210000"
proof -
  have "fl (3500 * 60) = of_int 7215545057280000 * 2 powi (17 - 52)"
    by (rule fl_normalI) simp_all
  then show ?thesis by simp
qed

lemma heat_200_5: "fl (5 * 60) = 300"
proof -
  have "fl (5 * 60) = of_int 5277655813324800 * 2 powi (8 - 52)"
    by (rule fl_normalI) simp_all
  then show ?thesis by simp
qed

lemma heat_200_6: "fl (210000 / 300) = 700"
proof -
  have "fl (210000 / 300) = of_int 6157265115545600 * 2 powi (9 - 52)"
    by (rule fl_normalI) simp_all
  then show ?thesis by simp
qed

text \<open>
  Claim C1 says that the returned heat input equals
  \<open>arc_efficiency * voltage * current / travel_speed\<close> exactly. The program multiplies
  and divides in binary64, and the two factors of 60 cancel only in exact arithmetic. At
  current 278 A, voltage 23 V, travel speed 12 mm/s and the arc efficiency written
  \<open>0.6\<close> the returned double is \<open>2812110939199897 / 2 ^ 43\<close> (printed
  319.69999999999993). It differs from the exact quotient, from the exact quotient
  rounded once to binary64 (printed 319.7) and from \<open>0.6 * 23 * 278 / 12 = 319.7\<close>.
\<close>

theorem heat_input_exact_counterexample:
  "(0::real) < 278 \<and> (0::real) < 23 \<and> (0::real) < 12 \<and>
   0 < fl (6 / 10) \<and> fl (6 / 10) \<le> 1 \<and>
   calculate_heat_input_b64 278 23 12 (fl (6 / 10)) = Inr (2812110939199897 / 8796093022208) \<and>
   (2812110939199897 / 8796093022208 :: real) \<noteq> fl (6 / 10) * 23 * 278 / 12 \<and>
   (2812110939199897 / 8796093022208 :: real) \<noteq> fl (fl (6 / 10) * 23 * 278 / 12) \<and>
   (2812110939199897 / 8796093022208 :: real) \<noteq> 6 / 10 * 23 * 278 / 12"
  unfolding calculate_heat_input_b64_def Let_def
  by (simp only: heat_278_1 heat_278_2 heat_278_3 heat_278_4 heat_278_5 heat_278_6 heat_278_7) simp

text \<open>
  Claim C1, amended. For current, voltage and travel speed between \<open>2 ^ - 200\<close> and
  \<open>2 ^ 200\<close> and an arc efficiency between \<open>2 ^ - 200\<close> and 1, the function returns
  a value whose distance from \<open>arc_efficiency * voltage * current / travel_speed\<close> is at
  most that quotient times \<open>2 ^ - 50\<close>: five roundings, and the factor 60 cancels in the
  exact quotient. At \<open>(200, 25, 5, 0.7)\<close> the returned double is exactly 700.
\<close>

theorem heat_input_b64_rounding:
  "(1 / 2 ^ 200 \<le> current \<and> current \<le> 2 ^ 200 \<and>
    1 / 2 ^ 200 \<le> voltage \<and> voltage \<le> 2 ^ 200 \<and>
    1 / 2 ^ 200 \<le> travel_speed \<and> travel_speed \<le> 2 ^ 200 \<and>
    1 / 2 ^ 200 \<le> arc_efficiency \<and> arc_efficiency \<le> 1 \<longrightarrow>
      (\<exists>r. calculate_heat_input_b64 current voltage travel_speed arc_efficiency = Inr r \<and>
           \<bar>r - arc_efficiency * voltage * current / travel_speed\<bar>
             \<le> (arc_efficiency * voltage * current / travel_speed) / 2 ^ 50)) \<and>
   calculate_heat_input_b64 200 25 5 (fl (7 / 10)) = Inr 700"
proof (intro conjI impI)
  assume "1 / 2 ^ 200 \<le> current \<and> current \<le> 2 ^ 200 \<and>
    1 / 2 ^ 200 \<le> voltage \<and> voltage \<le> 2 ^ 200 \<and>
    1 / 2 ^ 200 \<le> travel_speed \<and> travel_speed \<le> 2 ^ 200 \<and>
    1 / 2 ^ 200 \<le> arc_efficiency \<and> arc_efficiency \<le> 1"
  then show "\<exists>r. calculate_heat_input_b64 current voltage travel_speed arc_efficiency = Inr r \<and>
           \<bar>r - arc_efficiency * voltage * current / travel_speed\<bar>
             \<le> (arc_efficiency * voltage * current / travel_speed) / 2 ^ 50"
    by (intro heat_input_b64_error) simp_all
next
  show "calculate_heat_input_b64 200 25 5 (fl (7 / 10)) = Inr 700"
    unfolding calculate_heat_input_b64_def Let_def
    by (simp only: heat_200_1 heat_200_2 heat_200_3 heat_200_4 heat_200_5 heat_200_6) simp
qed

theorem heat_input_b64_rounding_witness:
  "(1 / 2 ^ 200 \<le> (278::real) \<and> (278::real) \<le> 2 ^ 200 \<and>
    1 / 2 ^ 200 \<le> (23::real) \<and> (23::real) \<le> 2 ^ 200 \<and>
    1 / 2 ^ 200 \<le> (12::real) \<and> (12::real) \<le> 2 ^ 200 \<and>
    1 / 2 ^ 200 \<le> fl (6 / 10) \<and> fl (6 / 10) \<le> 1) \<and>
   (\<exists>r. calculate_heat_input_b64 278 23 12 (fl (6 / 10)) = Inr r \<and>
        r = 2812110939199897 / 8796093022208 \<and>
        \<bar>r - fl (6 / 10) * 23 * 278 / 12\<bar> \<le> (fl (6 / 10) * 23 * 278 / 12) / 2 ^ 50)"
proof -
  have h: "1 / 2 ^ 200 \<le> (278::real) \<and> (278::real) \<le> 2 ^ 200 \<and>
    1 / 2 ^ 200 \<le> (23::real) \<and> (23::real) \<le> 2 ^ 200 \<and>
    1 / 2 ^ 200 \<le> (12::real) \<and> (12::real) \<le> 2 ^ 200 \<and>
    1 / 2 ^ 200 \<le> fl (6 / 10) \<and> fl (6 / 10) \<le> 1"
    by (simp only: heat_278_1) simp
  have v: "calculate_heat_input_b64 278 23 12 (fl (6 / 10)) = Inr (2812110939199897 / 8796093022208)"
    unfolding calculate_heat_input_b64_def Let_def
    by (simp only: heat_278_1 heat_278_2 heat_278_3 heat_278_4 heat_278_5 heat_278_6 heat_278_7) simp
  obtain r where r: "calculate_heat_input_b64 278 23 12 (fl (6 / 10)) = Inr r"
      "\<bar>r - fl (6 / 10) * 23 * 278 / 12\<bar> \<le> (fl (6 / 10) * 23 * 278 / 12) / 2 ^ 50"
    using heat_input_b64_rounding [of 278 23 12 "fl (6 / 10)"] h by blast
  have "r = 2812110939199897 / 8796093022208" using r(1) v by simp
  then show ?thesis using h r by blast
qed

section \<open>Properties of the weld pool geometry\<close>

lemma l_c_of_pos:
  assumes "0 < h" "valid_material m"
  shows "0 < l_c_of h m"
  using assms by (simp add: l_c_of_def valid_material_def Let_def)

lemma raw_width_pos: "0 < L \<Longrightarrow> 0 < raw_width L"
  by (simp add: raw_width_def)

lemma raw_penetration_pos: "0 < L \<Longrightarrow> 0 < pt \<Longrightarrow> 0 < raw_penetration L pt"
  by (simp add: raw_penetration_def)

text \<open>
  For a positive characteristic length and plate thickness the penetration before the
  clamp is already below the plate thickness: the thick-plate branch needs
  \<open>plate_thickness > 7500 * l_c\<close> and yields \<open>800 * l_c\<close>, the thin-plate branch is
  capped at \<open>0.9 * plate_thickness\<close>. So only the width clamp can engage.
\<close>

lemma raw_penetration_less: "0 < L \<Longrightarrow> 0 < pt \<Longrightarrow> raw_penetration L pt < pt"
  by (simp add: raw_penetration_def raw_width_def min_def)

lemma geometry_result:
  assumes "0 < h" "valid_material m" "0 < pt"
  shows "calculate_weld_pool_geometry h m pt =
     Inr \<lparr>width = min (raw_width (l_c_of h m)) (pt * 2),
          length_mm = 3.2 * raw_width (l_c_of h m),
          penetration = min (raw_penetration (l_c_of h m) pt) pt,
          aspect_ratio = 3.2 * raw_width (l_c_of h m) / min (raw_width (l_c_of h m)) (pt * 2),
          dilution_ratio = dilution_of (min (raw_penetration (l_c_of h m) pt) pt),
          volume = (pi / 6) * min (raw_width (l_c_of h m)) (pt * 2)
                     * (3.2 * raw_width (l_c_of h m))
                     * min (raw_penetration (l_c_of h m) pt) pt,
          pool_heat_input = h,
          characteristic_length = l_c_of h m * 1000\<rparr>"
proof -
  have L: "0 < l_c_of h m" using assms(1,2) by (rule l_c_of_pos)
  have w: "0 < min (raw_width (l_c_of h m)) (pt * 2)"
    using raw_width_pos [OF L] assms(3) by simp
  have p: "0 < min (raw_penetration (l_c_of h m) pt) pt"
    using raw_penetration_pos [OF L assms(3)] assms(3) by simp
  have d: "density m * specific_heat_solid m \<noteq> 0"
    using assms(2) by (simp add: valid_material_def)
  have e: "2 * pi * thermal_conductivity m * (liquidus_temp m - 298) \<noteq> 0"
    using assms(2) by (simp add: valid_material_def)
  have w': "min (raw_width (l_c_of h m)) (pt * 2) \<noteq> 0"
    using w by linarith
  have p': "min (raw_penetration (l_c_of h m) pt) pt + 3 \<noteq> 0"
    using p by linarith
  show ?thesis
    unfolding calculate_weld_pool_geometry_def Let_def
    using p' by (simp only: d e w' if_False) simp
qed

lemma raw_width_steel: "raw_width (l_c_of h steel) = 50 * h / (3 * pi)"
  by (simp add: raw_width_def l_c_of_def steel_def Let_def)

lemma raw_width_aluminum: "raw_width (l_c_of h aluminum) = 2500000 * h / (305730 * pi)"
  by (simp add: raw_width_def l_c_of_def aluminum_def Let_def)

lemma steel_width_exceeds:
  assumes "630 \<le> h"
  shows "2000 < raw_width (l_c_of h steel)"
proof -
  have "3 * pi < 12" using pi_less_4 by simp
  moreover have "(0::real) < 3 * pi" using pi_gt_zero by simp
  ultimately have "2000 * (3 * pi) < 50 * h" using assms by simp
  then show ?thesis
    using \<open>0 < 3 * pi\<close> by (simp add: raw_width_steel pos_less_divide_eq)
qed

lemma pi_ge_three: "3 \<le> pi"
proof -
  have "sin (pi / 6) \<le> pi / 6" by (rule sin_x_le_x) simp
  then show ?thesis by (simp add: sin_30)
qed

lemma aluminum_width_within: "raw_width (l_c_of 12.5 aluminum) \<le> 50"
proof -
  have "(3::real) \<le> pi" by (rule pi_ge_three)
  then have "2500000 * 12.5 \<le> 50 * (305730 * pi)" by simp
  then show ?thesis
    using pi_gt_zero by (simp add: raw_width_aluminum pos_divide_le_eq)
qed

lemma geometry_steel_10:
  assumes "630 \<le> h"
  shows "\<exists>g. calculate_weld_pool_geometry h steel 10 = Inr g \<and> width g = 20 \<and>
           penetration g = 9"
proof -
  have h: "0 < h" using assms by simp
  have w: "2000 < raw_width (l_c_of h steel)" using assms by (rule steel_width_exceeds)
  have L: "0 < l_c_of h steel" using h valid_material_catalog(1) by (rule l_c_of_pos)
  have "\<not> 10 > 3 * raw_width (l_c_of h steel)" using w by simp
  moreover have "9 < 0.6 * l_c_of h steel * 1000" using w by (simp add: raw_width_def)
  ultimately have p: "raw_penetration (l_c_of h steel) 10 = 9"
    by (simp add: raw_penetration_def)
  show ?thesis
    using w p by (simp add: geometry_result [OF h valid_material_catalog(1)])
qed

text \<open>
  Claim C3 says that the returned length is 3.2 times the returned width. The length is
  computed from the width before the clamp and is not recomputed after it. At the base
  case (heat input 700 J/mm, steel, plate thickness 10 mm) the returned width is the
  clamped 20 mm and the returned length is \<open>112000 / (3 * pi)\<close> mm, not 64 mm.
\<close>

theorem pool_length_counterexample:
  "(0::real) < 700 \<and> valid_material steel \<and> (0::real) < 10 \<and>
   calculate_weld_pool_geometry 700 steel 10
     = Inr (projr (calculate_weld_pool_geometry 700 steel 10)) \<and>
   width (projr (calculate_weld_pool_geometry 700 steel 10)) = 20 \<and>
   length_mm (projr (calculate_weld_pool_geometry 700 steel 10)) = 112000 / (3 * pi) \<and>
   length_mm (projr (calculate_weld_pool_geometry 700 steel 10))
     \<noteq> 3.2 * width (projr (calculate_weld_pool_geometry 700 steel 10))"
proof -
  have w: "2000 < raw_width (l_c_of 700 steel)" by (rule steel_width_exceeds) simp
  have v: "raw_width (l_c_of 700 steel) = 35000 / (3 * pi)" by (simp add: raw_width_steel)
  have "3 * pi < 12" using pi_less_4 by simp
  then have "64 * (3 * pi) < 112000" by simp
  then have n: "112000 / (3 * pi) \<noteq> 64"
    using pi_gt_zero by (simp add: field_simps)
  have g: "calculate_weld_pool_geometry 700 steel 10 =
     Inr \<lparr>width = min (raw_width (l_c_of 700 steel)) (10 * 2),
          length_mm = 3.2 * raw_width (l_c_of 700 steel),
          penetration = min (raw_penetration (l_c_of 700 steel) 10) 10,
          aspect_ratio = 3.2 * raw_width (l_c_of 700 steel) / min (raw_width (l_c_of 700 steel)) (10 * 2),
          dilution_ratio = dilution_of (min (raw_penetration (l_c_of 700 steel) 10) 10),
          volume = (pi / 6) * min (raw_width (l_c_of 700 steel)) (10 * 2)
                     * (3.2 * raw_width (l_c_of 700 steel))
                     * min (raw_penetration (l_c_of 700 steel) 10) 10,
          pool_heat_input = 700,
          characteristic_length = l_c_of 700 steel * 1000\<rparr>"
    by (rule geometry_result) (simp_all add: valid_material_catalog)
  have W: "width (projr (calculate_weld_pool_geometry 700 steel 10)) = 20"
    using w by (simp add: g)
  have M: "length_mm (projr (calculate_weld_pool_geometry 700 steel 10)) = 112000 / (3 * pi)"
    by (simp add: g v)
  have I: "calculate_weld_pool_geometry 700 steel 10
             = Inr (projr (calculate_weld_pool_geometry 700 steel 10))"
    by (simp add: g)
  have N: "length_mm (projr (calculate_weld_pool_geometry 700 steel 10))
             \<noteq> 3.2 * width (projr (calculate_weld_pool_geometry 700 steel 10))"
    unfolding W M using n by simp
  show ?thesis
    using W M I N valid_material_catalog(1) by (intro conjI) simp_all
qed

text \<open>
  Claim C3, amended. For a positive heat input, a valid material and a positive plate
  thickness, the returned length is 3.2 times the width before the clamp; it is 3.2 times
  the returned width whenever the width before the clamp does not exceed twice the plate
  thickness; and the returned aspect ratio is the returned length divided by the returned
  width.
\<close>

theorem pool_length_aspect:
  assumes "0 < h" "valid_material m" "0 < pt"
  shows "\<exists>g. calculate_weld_pool_geometry h m pt = Inr g \<and>
           length_mm g = 3.2 * raw_width (l_c_of h m) \<and>
           (raw_width (l_c_of h m) \<le> 2 * pt \<longrightarrow> length_mm g = 3.2 * width g) \<and>
           aspect_ratio g = length_mm g / width g"
  by (simp add: geometry_result [OF assms] min_def)

theorem pool_length_aspect_witness:
  "(0::real) < 12.5 \<and> valid_material aluminum \<and> (0::real) < 25 \<and>
   raw_width (l_c_of 12.5 aluminum) \<le> 2 * 25 \<and>
   (\<exists>g. calculate_weld_pool_geometry 12.5 aluminum 25 = Inr g \<and>
        length_mm g = 3.2 * width g \<and> aspect_ratio g = length_mm g / width g)"
  using pool_length_aspect [of "12.5" aluminum 25] aluminum_width_within
    valid_material_catalog(2)
  by auto

lemma geometry_clamps:
  assumes "calculate_weld_pool_geometry h m pt = Inr g"
  shows "penetration g = min (raw_penetration (l_c_of h m) pt) pt"
    and "width g = min (raw_width (l_c_of h m)) (2 * pt)"
  using assms unfolding calculate_weld_pool_geometry_def Let_def
  by (auto split: if_splits simp add: mult.commute)

lemma geometry_steel_negative:
  "calculate_weld_pool_geometry 700 steel (- 1)
     = Inr (projr (calculate_weld_pool_geometry 700 steel (- 1)))"
  "raw_penetration (l_c_of 700 steel) (- 1) = - (9 / 10)"
proof -
  have w: "2000 < raw_width (l_c_of 700 steel)" by (rule steel_width_exceeds) simp
  then have l: "0 < l_c_of 700 steel" by (simp add: raw_width_def)
  show p: "raw_penetration (l_c_of 700 steel) (- 1) = - (9 / 10)"
    using w l by (simp add: raw_penetration_def)
  have k: "density steel * specific_heat_solid steel \<noteq> 0"
    "2 * pi * thermal_conductivity steel * (liquidus_temp steel - 298) \<noteq> 0"
    by (simp_all add: steel_def)
  have m: "min (raw_width (l_c_of 700 steel)) (- 1 * 2) = - 2" using w by simp
  show "calculate_weld_pool_geometry 700 steel (- 1)
     = Inr (projr (calculate_weld_pool_geometry 700 steel (- 1)))"
    unfolding calculate_weld_pool_geometry_def Let_def
    by (simp only: k if_False p m) simp
qed

text \<open>
  Claim C4. For a positive heat input, a valid material and a positive plate thickness,
  the function returns a geometry whose penetration lies in \<open>(0, plate_thickness]\<close> and
  whose width lies in \<open>(0, 2 * plate_thickness]\<close>. For every input on which the function
  returns, the returned penetration is the minimum of the penetration before the clamp and
  the plate thickness, and the returned width is the minimum of the width before the clamp
  and twice the plate thickness; so whenever the value before the clamp exceeds its bound,
  the returned value equals the bound exactly.
\<close>

theorem pool_clamps:
  "(0 < h \<and> valid_material m \<and> 0 < pt \<longrightarrow>
      (\<exists>g. calculate_weld_pool_geometry h m pt = Inr g \<and>
           0 < penetration g \<and> penetration g \<le> pt \<and>
           0 < width g \<and> width g \<le> 2 * pt)) \<and>
   (calculate_weld_pool_geometry h' m' pt' = Inr g' \<longrightarrow>
      penetration g' = min (raw_penetration (l_c_of h' m') pt') pt' \<and>
      width g' = min (raw_width (l_c_of h' m')) (2 * pt') \<and>
      (pt' < raw_penetration (l_c_of h' m') pt' \<longrightarrow> penetration g' = pt') \<and>
      (2 * pt' < raw_width (l_c_of h' m') \<longrightarrow> width g' = 2 * pt'))"
proof (intro conjI impI)
  assume a: "0 < h \<and> valid_material m \<and> 0 < pt"
  then have L: "0 < l_c_of h m" by (simp add: l_c_of_pos)
  have "0 < raw_width (l_c_of h m)" using L by (rule raw_width_pos)
  moreover have "0 < raw_penetration (l_c_of h m) pt"
    using L a by (simp add: raw_penetration_pos)
  ultimately show "\<exists>g. calculate_weld_pool_geometry h m pt = Inr g \<and>
           0 < penetration g \<and> penetration g \<le> pt \<and>
           0 < width g \<and> width g \<le> 2 * pt"
    using a by (simp add: geometry_result mult.commute)
next
  assume r: "calculate_weld_pool_geometry h' m' pt' = Inr g'"
  show p: "penetration g' = min (raw_penetration (l_c_of h' m') pt') pt'"
    using r by (rule geometry_clamps(1))
  show w: "width g' = min (raw_width (l_c_of h' m')) (2 * pt')"
    using r by (rule geometry_clamps(2))
  {
    assume "pt' < raw_penetration (l_c_of h' m') pt'"
    then show "penetration g' = pt'" using p by simp
  }
  {
    assume "2 * pt' < raw_width (l_c_of h' m')"
    then show "width g' = 2 * pt'" using w by simp
  }
qed

theorem pool_clamps_witness:
  "((0::real) < 700 \<and> valid_material steel \<and> (0::real) < 10 \<and>
    (\<exists>g. calculate_weld_pool_geometry 700 steel 10 = Inr g \<and>
         0 < penetration g \<and> penetration g \<le> 10 \<and> 0 < width g \<and> width g \<le> 2 * 10 \<and>
         2 * 10 < raw_width (l_c_of 700 steel) \<and> width g = 2 * 10)) \<and>
   (calculate_weld_pool_geometry 700 steel (- 1)
      = Inr (projr (calculate_weld_pool_geometry 700 steel (- 1))) \<and>
    - 1 < raw_penetration (l_c_of 700 steel) (- 1) \<and>
    raw_penetration (l_c_of 700 steel) (- 1) = - (9 / 10) \<and>
    penetration (projr (calculate_weld_pool_geometry 700 steel (- 1))) = - 1)"
proof -
  have w: "2 * 10 < raw_width (l_c_of 700 steel)"
    using steel_width_exceeds [of 700] by simp
  have "\<exists>g. calculate_weld_pool_geometry 700 steel 10 = Inr g \<and>
           0 < penetration g \<and> penetration g \<le> 10 \<and> 0 < width g \<and> width g \<le> 2 * 10"
    using pool_clamps [where h = 700 and m = steel and pt = 10, THEN conjunct1]
      valid_material_catalog(1) by simp
  then obtain g where g: "calculate_weld_pool_geometry 700 steel 10 = Inr g"
      "0 < penetration g" "penetration g \<le> 10" "0 < width g" "width g \<le> 2 * 10"
    by blast
  have "width g = 2 * 10"
    using pool_clamps [where h' = 700 and m' = steel and pt' = 10 and g' = g, THEN conjunct2]
      g(1) w by blast
  then have first: "\<exists>g. calculate_weld_pool_geometry 700 steel 10 = Inr g \<and>
         0 < penetration g \<and> penetration g \<le> 10 \<and> 0 < width g \<and> width g \<le> 2 * 10 \<and>
         2 * 10 < raw_width (l_c_of 700 steel) \<and> width g = 2 * 10"
    using g w by blast
  have n: "- 1 < raw_penetration (l_c_of 700 steel) (- 1)"
    by (simp add: geometry_steel_negative(2))
  have "penetration (projr (calculate_weld_pool_geometry 700 steel (- 1))) = - 1"
    using pool_clamps [where h' = 700 and m' = steel and pt' = "- 1"
        and g' = "projr (calculate_weld_pool_geometry 700 steel (- 1))", THEN conjunct2]
      geometry_steel_negative(1) n by blast
  then show ?thesis
    using first n geometry_steel_negative valid_material_catalog(1) by simp
qed

text \<open>
  Claim C7. The dilution ratio \<open>p / (p + 3)\<close> lies in \<open>[0, 1)\<close> for every penetration
  \<open>p \<ge> 0\<close>. For a positive heat input, a valid material and a positive plate thickness,
  the returned dilution ratio is that expression at the returned penetration and lies in
  the open interval \<open>(0, 1)\<close>.
\<close>

theorem dilution_ratio_bounds:
  "(0 \<le> p \<longrightarrow> 0 \<le> dilution_of p \<and> dilution_of p < 1) \<and>
   (0 < h \<and> valid_material m \<and> 0 < pt \<longrightarrow>
      (\<exists>g. calculate_weld_pool_geometry h m pt = Inr g \<and>
           dilution_ratio g = penetration g / (penetration g + 3) \<and>
           0 < dilution_ratio g \<and> dilution_ratio g < 1))"
proof (intro conjI impI)
  assume "0 \<le> p"
  then show "0 \<le> dilution_of p" "dilution_of p < 1"
    by (simp_all add: dilution_of_def)
next
  assume a: "0 < h \<and> valid_material m \<and> 0 < pt"
  then have L: "0 < l_c_of h m" by (simp add: l_c_of_pos)
  have "0 < raw_penetration (l_c_of h m) pt"
    using L a by (simp add: raw_penetration_pos)
  then have P: "0 < min (raw_penetration (l_c_of h m) pt) pt" using a by simp
  have "\<And>P::real. 0 < P \<Longrightarrow> 0 < P / (P + 3) \<and> P / (P + 3) < 1" by simp
  from this [OF P] show "\<exists>g. calculate_weld_pool_geometry h m pt = Inr g \<and>
           dilution_ratio g = penetration g / (penetration g + 3) \<and>
           0 < dilution_ratio g \<and> dilution_ratio g < 1"
    using a by (simp add: geometry_result dilution_of_def)
qed

theorem dilution_ratio_bounds_witness:
  "(0::real) \<le> 9 \<and> dilution_of 9 = 3 / 4 \<and>
   (0::real) < 700 \<and> valid_material steel \<and> (0::real) < 10 \<and>
   (\<exists>g. calculate_weld_pool_geometry 700 steel 10 = Inr g \<and>
        0 < dilution_ratio g \<and> dilution_ratio g < 1)"
  using dilution_ratio_bounds [of 9 700 steel 10] valid_material_catalog(1)
  by (auto simp add: dilution_of_def)

section \<open>The aspect ratio in binary64\<close>

lemma b64_range_constants:
  "b64_range 9 10 1000" "b64_range 1 2 2.5" "b64_range 1 2 3.2" "b64_range 1 2 3"
  "b64_range (- 1) 0 0.8" "b64_range (- 1) 0 0.6" "b64_range (- 1) 0 0.9"
  "b64_range 1 1 2" "b64_range 2 3 (2 * pi_b64)"
  by (simp_all add: b64_range_def pi_b64_def)

lemma raw_width_b64_range:
  assumes "b64_range (- 294) 252 l_c"
  shows "b64_range (- 284) 264 (raw_width_b64 l_c)"
proof -
  have s: "b64_range (- 293) 254 (fl (2.5 * l_c))"
    using b64_range_mult [OF b64_range_constants(2) assms]
    by (intro b64_range_fl) simp_all
  show ?thesis
    unfolding raw_width_b64_def
    using b64_range_mult [OF s b64_range_constants(1)]
    by (intro b64_range_fl) simp_all
qed

lemma raw_penetration_b64_range:
  assumes l: "b64_range (- 294) 252 l_c" and p: "b64_range (- 100) 100 pt"
  shows "b64_range (- 286) 262 (raw_penetration_b64 l_c pt)"
proof -
  have c8: "b64_range (- 1) 0 (fl 0.8)" and c6: "b64_range (- 1) 0 (fl 0.6)"
    and c9: "b64_range (- 1) 0 (fl 0.9)"
    using b64_range_constants(5-7) by (simp_all add: b64_range_fl)
  have t8: "b64_range (- 295) 252 (fl (fl 0.8 * l_c))"
    using b64_range_mult [OF c8 l] by (intro b64_range_fl) simp_all
  have thick: "b64_range (- 286) 262 (fl (fl (fl 0.8 * l_c) * 1000))"
    using b64_range_mult [OF t8 b64_range_constants(1)] by (intro b64_range_fl) simp_all
  have t6: "b64_range (- 295) 252 (fl (fl 0.6 * l_c))"
    using b64_range_mult [OF c6 l] by (intro b64_range_fl) simp_all
  have y: "b64_range (- 286) 262 (fl (fl (fl 0.6 * l_c) * 1000))"
    using b64_range_mult [OF t6 b64_range_constants(1)] by (intro b64_range_fl) simp_all
  have z: "b64_range (- 101) 100 (fl (pt * fl 0.9))"
    using b64_range_mult [OF p c9] by (intro b64_range_fl) simp_all
  have thin: "b64_range (- 286) 262
      (min (fl (fl (fl 0.6 * l_c) * 1000)) (fl (pt * fl 0.9)))"
    using b64_range_min [OF y z] by simp
  show ?thesis
    unfolding raw_penetration_b64_def using thick thin by simp
qed

lemma geometry_b64_result:
  assumes H: "1 / 2 ^ 100 \<le> h" "h \<le> 2 ^ 100"
    and K: "1 / 2 ^ 100 \<le> thermal_conductivity m" "thermal_conductivity m \<le> 2 ^ 100"
    and R: "1 / 2 ^ 100 \<le> density m" "density m \<le> 2 ^ 100"
    and C: "1 / 2 ^ 100 \<le> specific_heat_solid m" "specific_heat_solid m \<le> 2 ^ 100"
    and T: "298 + 1 / 2 ^ 44 \<le> liquidus_temp m" "liquidus_temp m \<le> 2 ^ 100"
    and P: "1 / 2 ^ 100 \<le> pt" "pt \<le> 2 ^ 100"
  shows "\<exists>g. calculate_weld_pool_geometry_b64 h m pt = Inr g \<and>
           width g = min (raw_width_b64 (l_c_b64 h m)) (fl (pt * 2)) \<and>
           length_mm g = fl (fl 3.2 * raw_width_b64 (l_c_b64 h m)) \<and>
           aspect_ratio g = fl (length_mm g / width g)"
    and "b64_range (- 284) 264 (raw_width_b64 (l_c_b64 h m))"
    and "b64_range (- 99) 101 (fl (pt * 2))"
proof -
  have rH: "b64_range (- 100) 100 h" using H by (simp add: b64_range_def)
  have rK: "b64_range (- 100) 100 (thermal_conductivity m)" using K by (simp add: b64_range_def)
  have rR: "b64_range (- 100) 100 (density m)" using R by (simp add: b64_range_def)
  have rC: "b64_range (- 100) 100 (specific_heat_solid m)" using C by (simp add: b64_range_def)
  have rT: "b64_range (- 44) 100 (liquidus_temp m - 298)" using T by (simp add: b64_range_def)
  have rP: "b64_range (- 100) 100 pt" using P by (simp add: b64_range_def)
  have q: "b64_range (- 91) 110 (fl (h * 1000))"
    using b64_range_mult [OF rH b64_range_constants(1)] by (intro b64_range_fl) simp_all
  have dT: "b64_range (- 44) 100 (fl (liquidus_temp m - 298))"
    using rT by (intro b64_range_fl) simp_all
  have t1: "b64_range 2 3 (fl (2 * pi_b64))"
    using b64_range_constants(9) by (intro b64_range_fl) simp_all
  have t2: "b64_range (- 98) 103 (fl (fl (2 * pi_b64) * thermal_conductivity m))"
    using b64_range_mult [OF t1 rK] by (intro b64_range_fl) simp_all
  have d: "b64_range (- 142) 203
      (fl (fl (fl (2 * pi_b64) * thermal_conductivity m) * fl (liquidus_temp m - 298)))"
    using b64_range_mult [OF t2 dT] by (intro b64_range_fl) simp_all
  have rc: "b64_range (- 200) 200 (fl (density m * specific_heat_solid m))"
    using b64_range_mult [OF rR rC] by (intro b64_range_fl) simp_all
  have l: "b64_range (- 294) 252 (l_c_b64 h m)"
    unfolding l_c_b64_def Let_def
    using b64_range_divide [OF q d] by (intro b64_range_fl) simp_all
  show w0: "b64_range (- 284) 264 (raw_width_b64 (l_c_b64 h m))"
    using l by (rule raw_width_b64_range)
  show w2: "b64_range (- 99) 101 (fl (pt * 2))"
    using b64_range_mult [OF rP b64_range_constants(8)] by (intro b64_range_fl) simp_all
  have w1: "b64_range (- 284) 264 (min (raw_width_b64 (l_c_b64 h m)) (fl (pt * 2)))"
    using b64_range_min [OF w0 w2] by simp
  have p0: "b64_range (- 286) 262 (raw_penetration_b64 (l_c_b64 h m) pt)"
    using l rP by (rule raw_penetration_b64_range)
  have p1: "b64_range (- 286) 262 (min (raw_penetration_b64 (l_c_b64 h m) pt) pt)"
    using b64_range_min [OF p0 rP] by simp
  have "0 < min (raw_penetration_b64 (l_c_b64 h m) pt) pt" using p1 by (rule b64_range_pos)
  then have "2 powi 1 \<le> min (raw_penetration_b64 (l_c_b64 h m) pt) pt + 3" by simp
  then have "2 powi 1 \<le> fl (min (raw_penetration_b64 (l_c_b64 h m) pt) pt + 3)"
    by (intro fl_ge) simp_all
  then have g4: "fl (min (raw_penetration_b64 (l_c_b64 h m) pt) pt + 3) \<noteq> 0" by simp
  have g1: "fl (density m * specific_heat_solid m) \<noteq> 0"
    using b64_range_pos [OF rc] by simp
  have g2: "fl (fl (fl (2 * pi_b64) * thermal_conductivity m) * fl (liquidus_temp m - 298)) \<noteq> 0"
    using b64_range_pos [OF d] by simp
  have g3: "min (raw_width_b64 (l_c_b64 h m)) (fl (pt * 2)) \<noteq> 0"
    using b64_range_pos [OF w1] by linarith
  show "\<exists>g. calculate_weld_pool_geometry_b64 h m pt = Inr g \<and>
           width g = min (raw_width_b64 (l_c_b64 h m)) (fl (pt * 2)) \<and>
           length_mm g = fl (fl 3.2 * raw_width_b64 (l_c_b64 h m)) \<and>
           aspect_ratio g = fl (length_mm g / width g)"
    unfolding calculate_weld_pool_geometry_b64_def Let_def
    by (simp only: g1 g2 g3 g4 if_False) simp
qed

lemma aspect_b64_near:
  assumes w0: "b64_range (- 284) 264 w0" and w1: "b64_range (- 284) 264 w1"
  shows "b64_near 3 (fl (fl (fl 3.2 * w0) / w1)) (3.2 * w0 / w1)"
proof -
  have p0: "0 < w0" and p1: "0 < w1" using w0 w1 by (simp_all add: b64_range_pos)
  have c: "b64_range 1 2 (fl 3.2)"
    using b64_range_constants(3) by (intro b64_range_fl) simp_all
  have nc: "b64_near 1 (fl 3.2) 3.2"
    using b64_near_fl [OF b64_near_refl b64_range_normal [OF b64_range_constants(3)]]
    by simp
  have x: "b64_range (- 283) 266 (fl 3.2 * w0)"
    using b64_range_mult [OF c w0] by simp
  have nx: "b64_near 1 (fl 3.2 * w0) (3.2 * w0)"
    using nc p0 by (intro b64_near_mult_right) simp_all
  have L: "b64_range (- 283) 266 (fl (fl 3.2 * w0))"
    using x by (intro b64_range_fl) simp_all
  have nL: "b64_near 2 (fl (fl 3.2 * w0)) (3.2 * w0)"
    using b64_near_fl [OF nx b64_range_normal [OF x]] by (simp add: numeral_2_eq_2)
  have y: "b64_range (- 547) 550 (fl (fl 3.2 * w0) / w1)"
    using b64_range_divide [OF L w1] by simp
  have ny: "b64_near 2 (fl (fl 3.2 * w0) / w1) (3.2 * w0 / w1)"
    using nL p1 by (rule b64_near_divide_right)
  show ?thesis
    using b64_near_fl [OF ny b64_range_normal [OF y]] by (simp add: numeral_3_eq_3)
qed

lemma aspect_b64_bounds:
  assumes H: "1 / 2 ^ 100 \<le> h" "h \<le> 2 ^ 100"
    and K: "1 / 2 ^ 100 \<le> thermal_conductivity m" "thermal_conductivity m \<le> 2 ^ 100"
    and R: "1 / 2 ^ 100 \<le> density m" "density m \<le> 2 ^ 100"
    and C: "1 / 2 ^ 100 \<le> specific_heat_solid m" "specific_heat_solid m \<le> 2 ^ 100"
    and T: "298 + 1 / 2 ^ 44 \<le> liquidus_temp m" "liquidus_temp m \<le> 2 ^ 100"
    and P: "1 / 2 ^ 100 \<le> pt" "pt \<le> 2 ^ 100"
  shows "\<exists>g. calculate_weld_pool_geometry_b64 h m pt = Inr g \<and>
           3.2 * (1 - 1 / 2 ^ 51) \<le> aspect_ratio g \<and>
           (raw_width_b64 (l_c_b64 h m) \<le> fl (pt * 2) \<longrightarrow>
              \<bar>aspect_ratio g - 3.2\<bar> \<le> 3.2 / 2 ^ 51) \<and>
           ((1 + 1 / 2 ^ 50) * fl (pt * 2) \<le> raw_width_b64 (l_c_b64 h m) \<longrightarrow>
              3.2 < aspect_ratio g)"
proof -
  define w0 where "w0 = raw_width_b64 (l_c_b64 h m)"
  define w2 where "w2 = fl (pt * 2)"
  define w1 where "w1 = min w0 w2"
  define A where "A = fl (fl (fl 3.2 * w0) / w1)"
  obtain g where g: "calculate_weld_pool_geometry_b64 h m pt = Inr g"
      "width g = w1" "length_mm g = fl (fl 3.2 * w0)" "aspect_ratio g = fl (length_mm g / width g)"
    using geometry_b64_result(1) [OF assms] unfolding w0_def w1_def w2_def by blast
  have a: "aspect_ratio g = A" by (simp add: g A_def)
  have r0: "b64_range (- 284) 264 w0" unfolding w0_def by (rule geometry_b64_result(2) [OF assms])
  have r2: "b64_range (- 99) 101 w2" unfolding w2_def by (rule geometry_b64_result(3) [OF assms])
  have r1: "b64_range (- 284) 264 w1" unfolding w1_def using b64_range_min [OF r0 r2] by simp
  have p0: "0 < w0" and p1: "0 < w1" and p2: "0 < w2"
    using r0 r1 r2 by (simp_all add: b64_range_pos)
  define lo3 :: real where "lo3 = (1 - 1 / 2 ^ 53) ^ 3"
  define hi3 :: real where "hi3 = (1 + 1 / 2 ^ 53) ^ 3"
  define rho where "rho = w0 / w1"
  define tl where "tl = lo3 * rho"
  define th where "th = hi3 * rho"
  have c_lo: "1 - 1 / 2 ^ 51 \<le> lo3" unfolding lo3_def by (rule rounding_constants(3))
  have c_hi: "hi3 \<le> 1 + 1 / 2 ^ 51" unfolding hi3_def by (rule rounding_constants(4))
  define k where "k = lo3 * (1 + 1 / 2 ^ 50)"
  have k_gt: "1 < k" unfolding k_def lo3_def by (rule rounding_constants(5))
  have lo3_pos: "0 < lo3" unfolding lo3_def by simp
  have near: "b64_near 3 A (3.2 * w0 / w1)"
    unfolding A_def using r0 r1 by (rule aspect_b64_near)
  have n1': "lo3 * (3.2 * w0 / w1) \<le> A" and n2': "A \<le> hi3 * (3.2 * w0 / w1)"
    using near unfolding b64_near_def lo3_def hi3_def by blast+
  have alg: "lo3 * (3.2 * w0 / w1) = 3.2 * tl" "hi3 * (3.2 * w0 / w1) = 3.2 * th"
    by (simp_all add: tl_def th_def rho_def)
  have n1: "3.2 * tl \<le> A" and n2: "A \<le> 3.2 * th"
    using n1' n2' unfolding alg by blast+
  have ratio: "1 \<le> rho" using p1 by (simp add: rho_def w1_def)
  have "lo3 * 1 \<le> lo3 * rho" using ratio lo3_pos by (intro mult_left_mono) simp_all
  then have tl_ge: "lo3 \<le> tl" by (simp add: tl_def)
  have lo: "3.2 * (1 - 1 / 2 ^ 51) \<le> A" using n1 tl_ge c_lo by simp
  have eq: "w0 \<le> w2 \<longrightarrow> \<bar>A - 3.2\<bar> \<le> 3.2 / 2 ^ 51"
  proof
    assume "w0 \<le> w2"
    then have "rho = 1" using p0 by (simp add: rho_def w1_def)
    then have "th = hi3" by (simp add: th_def)
    then have "A \<le> 3.2 * (1 + 1 / 2 ^ 51)" using n2 c_hi by simp
    then have u1: "A - 3.2 \<le> 3.2 / 2 ^ 51" by simp
    have u2: "3.2 - A \<le> 3.2 / 2 ^ 51" using lo by simp
    show "\<bar>A - 3.2\<bar> \<le> 3.2 / 2 ^ 51" using u1 u2 by linarith
  qed
  have gt: "(1 + 1 / 2 ^ 50) * w2 \<le> w0 \<longrightarrow> 3.2 < A"
  proof
    assume m: "(1 + 1 / 2 ^ 50) * w2 \<le> w0"
    have "w2 < (1 + 1 / 2 ^ 50) * w2" using p2 by simp
    then have "w1 = w2" using m by (simp add: w1_def)
    then have "1 + 1 / 2 ^ 50 \<le> rho"
      using m p2 unfolding rho_def by (simp only: pos_le_divide_eq)
    then have "lo3 * (1 + 1 / 2 ^ 50) \<le> lo3 * rho"
      using lo3_pos by (intro mult_left_mono) simp_all
    then have "k \<le> tl" unfolding k_def tl_def .
    then have "1 < tl" using k_gt by linarith
    then show "3.2 < A" using n1 by simp
  qed
  show ?thesis
    using g(1) lo eq gt unfolding a [symmetric] w0_def w2_def by blast
qed

lemma pool_1_1: "fl (7800 * 726000) = 5662800000"
proof -
  have "fl (7800 * 726000) = of_int 5937876172800000 * 2 powi (32 - 52)"
    by (rule fl_normalI) simp_all
  then show ?thesis by simp
qed

lemma pool_1_2: "fl (50 / 5662800000) = 667142259358571 / 75557863725914323419136"
proof -
  have "fl (50 / 5662800000) = of_int 5337138074868568 * 2 powi (- 27 - 52)"
    by (rule fl_normalI) simp_all
  then show ?thesis by simp
qed

lemma pool_1_3: "fl (1 * 1000) = 1000"
proof -
  have "fl (1 * 1000) = of_int 8796093022208000 * 2 powi (9 - 52)"
    by (rule fl_normalI) simp_all
  then show ?thesis by simp
qed

lemma pool_1_4: "fl (1798 - 298) = 1500"
proof -
  have "fl (1798 - 298) = of_int 6597069766656000 * 2 powi (10 - 52)"
    by (rule fl_normalI) simp_all
  then show ?thesis by simp
qed

lemma pool_1_5: "fl (2 * (884279719003555 / 281474976710656)) = 884279719003555 / 140737488355328"
proof -
  have "fl (2 * (884279719003555 / 281474976710656)) = of_int 7074237752028440 * 2 powi (2 - 52)"
    by (rule fl_normalI) simp_all
  then show ?thesis by simp
qed

lemma pool_1_6: "fl ((884279719003555 / 140737488355328) * 50) = 5526748243772219 / 17592186044416"
proof -
  have "fl ((884279719003555 / 140737488355328) * 50) = of_int 5526748243772219 * 2 powi (8 - 52)"
    by (rule fl_normalI) simp_all
  then show ?thesis by simp
qed

lemma pool_1_7: "fl ((5526748243772219 / 17592186044416) * 1500) = 8095822622713211 / 17179869184"
proof -
  have "fl ((5526748243772219 / 17592186044416) * 1500) = of_int 8095822622713211 * 2 powi (18 - 52)"
    by (rule fl_normalI) simp_all
  then show ?thesis by simp
qed

lemma pool_1_8: "fl (1000 / (8095822622713211 / 17179869184)) = 611643854850417 / 288230376151711744"
proof -
  have "fl (1000 / (8095822622713211 / 17179869184)) = of_int 4893150838803336 * 2 powi (- 9 - 52)"
    by (rule fl_normalI) simp_all
  then show ?thesis by simp
qed

lemma pool_1_9: "fl (2.5 * (611643854850417 / 288230376151711744)) = 3058219274252085 / 576460752303423488"
proof -
  have "fl (2.5 * (611643854850417 / 288230376151711744)) = of_int 6116438548504170 * 2 powi (- 8 - 52)"
    by (rule fl_normalI) simp_all
  then show ?thesis by simp
qed

lemma pool_1_10: "fl ((3058219274252085 / 576460752303423488) * 1000) = 1493271130005901 / 281474976710656"
proof -
  have "fl ((3058219274252085 / 576460752303423488) * 1000) = of_int 5973084520023604 * 2 powi (2 - 52)"
    by (rule fl_normalI) simp_all
  then show ?thesis by simp
qed

lemma pool_1_11: "fl (3.2) = 3602879701896397 / 1125899906842624"
proof -
  have "fl (3.2) = of_int 7205759403792794 * 2 powi (1 - 52)"
    by (rule fl_normalI) simp_all
  then show ?thesis by simp
qed

lemma pool_1_12: "fl ((3602879701896397 / 1125899906842624) * (1493271130005901 / 281474976710656)) = 4778467616018883 / 281474976710656"
proof -
  have "fl ((3602879701896397 / 1125899906842624) * (1493271130005901 / 281474976710656)) = of_int 4778467616018883 * 2 powi (4 - 52)"
    by (rule fl_normalI) simp_all
  then show ?thesis by simp
qed

lemma pool_1_13: "fl (3 * (1493271130005901 / 281474976710656)) = 4479813390017703 / 281474976710656"
proof -
  have "fl (3 * (1493271130005901 / 281474976710656)) = of_int 8959626780035406 * 2 powi (3 - 52)"
    by (rule fl_normalI) simp_all
  then show ?thesis by simp
qed

lemma pool_1_14: "fl (0.8) = 3602879701896397 / 4503599627370496"
proof -
  have "fl (0.8) = of_int 7205759403792794 * 2 powi (- 1 - 52)"
    by (rule fl_normalI) simp_all
  then show ?thesis by simp
qed

lemma pool_1_15: "fl ((3602879701896397 / 4503599627370496) * (611643854850417 / 288230376151711744)) = 3914520671042669 / 2305843009213693952"
proof -
  have "fl ((3602879701896397 / 4503599627370496) * (611643854850417 / 288230376151711744)) = of_int 7829041342085338 * 2 powi (- 10 - 52)"
    by (rule fl_normalI) simp_all
  then show ?thesis by simp
qed

lemma pool_1_16: "fl ((3914520671042669 / 2305843009213693952) * 1000) = 7645548185630213 / 4503599627370496"
proof -
  have "fl ((3914520671042669 / 2305843009213693952) * 1000) = of_int 7645548185630213 * 2 powi (0 - 52)"
    by (rule fl_normalI) simp_all
  then show ?thesis by simp
qed

lemma pool_1_17: "fl (20 * 2) = 40"
proof -
  have "fl (20 * 2) = of_int 5629499534213120 * 2 powi (5 - 52)"
    by (rule fl_normalI) simp_all
  then show ?thesis by simp
qed

lemma pool_1_18: "fl (21156347067741701 / 4503599627370496) = 5289086766935425 / 1125899906842624"
proof -
  have "fl (21156347067741701 / 4503599627370496) = of_int 5289086766935425 * 2 powi (2 - 52)"
    by (rule fl_normalI) simp_all
  then show ?thesis by simp
qed

lemma pool_1_19: "fl (4778467616018883 / 1493271130005901) = 7205759403792793 / 2251799813685248"
proof -
  have "fl (4778467616018883 / 1493271130005901) = of_int 7205759403792793 * 2 powi (1 - 52)"
    by (rule fl_normalI) simp_all
  then show ?thesis by simp
qed

lemma pool_700_1: "fl (700 * 1000) = 700000"
proof -
  have "fl (700 * 1000) = of_int 6012954214400000 * 2 powi (19 - 52)"
    by (rule fl_normalI) simp_all
  then show ?thesis by simp
qed

lemma pool_700_2: "fl (1798 - 298) = 1500"
proof -
  have "fl (1798 - 298) = of_int 6597069766656000 * 2 powi (10 - 52)"
    by (rule fl_normalI) simp_all
  then show ?thesis by simp
qed

lemma pool_700_3: "fl (2 * (884279719003555 / 281474976710656)) = 884279719003555 / 140737488355328"
proof -
  have "fl (2 * (884279719003555 / 281474976710656)) = of_int 7074237752028440 * 2 powi (2 - 52)"
    by (rule fl_normalI) simp_all
  then show ?thesis by simp
qed

lemma pool_700_4: "fl ((884279719003555 / 140737488355328) * 50) = 5526748243772219 / 17592186044416"
proof -
  have "fl ((884279719003555 / 140737488355328) * 50) = of_int 5526748243772219 * 2 powi (8 - 52)"
    by (rule fl_normalI) simp_all
  then show ?thesis by simp
qed

lemma pool_700_5: "fl ((5526748243772219 / 17592186044416) * 1500) = 8095822622713211 / 17179869184"
proof -
  have "fl ((5526748243772219 / 17592186044416) * 1500) = of_int 8095822622713211 * 2 powi (18 - 52)"
    by (rule fl_normalI) simp_all
  then show ?thesis by simp
qed

lemma pool_700_6: "fl (700000 / (8095822622713211 / 17179869184)) = 6689854662426435 / 4503599627370496"
proof -
  have "fl (700000 / (8095822622713211 / 17179869184)) = of_int 6689854662426435 * 2 powi (0 - 52)"
    by (rule fl_normalI) simp_all
  then show ?thesis by simp
qed

lemma pool_700_7: "fl (2.5 * (6689854662426435 / 4503599627370496)) = 2090579582008261 / 562949953421312"
proof -
  have "fl (2.5 * (6689854662426435 / 4503599627370496)) = of_int 8362318328033044 * 2 powi (1 - 52)"
    by (rule fl_normalI) simp_all
  then show ?thesis by simp
qed

lemma pool_700_8: "fl ((2090579582008261 / 562949953421312) * 1000) = 4083163246109885 / 1099511627776"
proof -
  have "fl ((2090579582008261 / 562949953421312) * 1000) = of_int 8166326492219770 * 2 powi (11 - 52)"
    by (rule fl_normalI) simp_all
  then show ?thesis by simp
qed

lemma pool_700_9: "fl (10 * 2) = 20"
proof -
  have "fl (10 * 2) = of_int 5629499534213120 * 2 powi (4 - 52)"
    by (rule fl_normalI) simp_all
  then show ?thesis by simp
qed

lemma steel_fields:
  "thermal_conductivity steel = 50" "density steel = 7800"
  "specific_heat_solid steel = 726000" "liquidus_temp steel = 1798"
  by (simp_all add: steel_def)

lemma pool_1_steel_20:
  "calculate_weld_pool_geometry_b64 1 steel 20
     = Inr (projr (calculate_weld_pool_geometry_b64 1 steel 20))"
  "aspect_ratio (projr (calculate_weld_pool_geometry_b64 1 steel 20)) = 7205759403792793 / 2251799813685248"
  "raw_width_b64 (l_c_b64 1 steel) = 1493271130005901 / 281474976710656"
  "fl (20 * 2) = 40"
  unfolding calculate_weld_pool_geometry_b64_def l_c_b64_def raw_width_b64_def
    raw_penetration_b64_def Let_def pi_b64_def steel_fields
  by (simp_all only: pool_1_1 pool_1_2 pool_1_3 pool_1_4 pool_1_5 pool_1_6 pool_1_7 pool_1_8 pool_1_9 pool_1_10 pool_1_11 pool_1_12 pool_1_13 pool_1_14 pool_1_15 pool_1_16 pool_1_17) (simp_all add: pool_1_18 pool_1_19)

lemma pool_700_steel_10:
  "raw_width_b64 (l_c_b64 700 steel) = 4083163246109885 / 1099511627776" "fl (10 * 2) = 20"
  unfolding l_c_b64_def raw_width_b64_def Let_def pi_b64_def steel_fields
  by (simp_all only: pool_700_1 pool_700_2 pool_700_3 pool_700_4 pool_700_5 pool_700_6 pool_700_7 pool_700_8 pool_700_9)

lemma steel_in_range:
  "1 / 2 ^ 100 \<le> thermal_conductivity steel" "thermal_conductivity steel \<le> 2 ^ 100"
  "1 / 2 ^ 100 \<le> density steel" "density steel \<le> 2 ^ 100"
  "1 / 2 ^ 100 \<le> specific_heat_solid steel" "specific_heat_solid steel \<le> 2 ^ 100"
  "298 + 1 / 2 ^ 44 \<le> liquidus_temp steel" "liquidus_temp steel \<le> 2 ^ 100"
  by (simp_all add: steel_def)

text \<open>
  Claim C9 says that the returned aspect ratio is at least 3.2 and equals 3.2 when the
  width clamp is not engaged. The program computes \<open>length = 3.2 * width\<close> and
  \<open>length / width\<close> in binary64, and the two roundings do not cancel. At heat input
  1 J/mm, steel and plate thickness 20 mm the width before the clamp is about 5.3 mm, the
  clamp is not engaged, and the returned aspect ratio is \<open>7205759403792793 / 2 ^ 51\<close>
  (printed 3.1999999999999997), below 3.2 and below the double written \<open>3.2\<close>.
\<close>

theorem aspect_ratio_counterexample:
  "(0::real) < 1 \<and> valid_material steel \<and> (0::real) < 20 \<and>
   calculate_weld_pool_geometry_b64 1 steel 20
     = Inr (projr (calculate_weld_pool_geometry_b64 1 steel 20)) \<and>
   raw_width_b64 (l_c_b64 1 steel) \<le> fl (20 * 2) \<and>
   aspect_ratio (projr (calculate_weld_pool_geometry_b64 1 steel 20)) = 7205759403792793 / 2251799813685248 \<and>
   aspect_ratio (projr (calculate_weld_pool_geometry_b64 1 steel 20)) < 3.2 \<and>
   aspect_ratio (projr (calculate_weld_pool_geometry_b64 1 steel 20)) < fl 3.2"
proof -
  let ?g = "projr (calculate_weld_pool_geometry_b64 1 steel 20)"
  have c: "fl 3.2 = 3602879701896397 / 1125899906842624" by (rule pool_1_11)
  have w: "raw_width_b64 (l_c_b64 1 steel) \<le> fl (20 * 2)"
    unfolding pool_1_steel_20(3,4) by simp
  have a1: "aspect_ratio ?g < 3.2" unfolding pool_1_steel_20(2) by simp
  have a2: "aspect_ratio ?g < fl 3.2" unfolding pool_1_steel_20(2) c by simp
  have p: "(0::real) < 1" "(0::real) < 20" by simp_all
  show ?thesis
    using p(1) valid_material_catalog(1) p(2) pool_1_steel_20(1) w pool_1_steel_20(2) a1 a2
    by (intro conjI)
qed

text \<open>
  Claim C9, amended. For a heat input, a thermal conductivity, a density, a solid specific
  heat and a plate thickness between \<open>2 ^ - 100\<close> and \<open>2 ^ 100\<close> and a liquidus
  temperature between \<open>298 + 2 ^ - 44\<close> and \<open>2 ^ 100\<close>, the function returns a geometry
  whose aspect ratio is at least \<open>3.2 * (1 - 2 ^ - 51)\<close>. When the width before the clamp
  is at most twice the plate thickness, the aspect ratio is within \<open>3.2 * 2 ^ - 51\<close> of
  3.2. When the width before the clamp is at least \<open>1 + 2 ^ - 50\<close> times twice the plate
  thickness, the aspect ratio is greater than 3.2.
\<close>

theorem aspect_ratio_b64_bounds:
  assumes "1 / 2 ^ 100 \<le> h" "h \<le> 2 ^ 100"
    and "1 / 2 ^ 100 \<le> thermal_conductivity m" "thermal_conductivity m \<le> 2 ^ 100"
    and "1 / 2 ^ 100 \<le> density m" "density m \<le> 2 ^ 100"
    and "1 / 2 ^ 100 \<le> specific_heat_solid m" "specific_heat_solid m \<le> 2 ^ 100"
    and "298 + 1 / 2 ^ 44 \<le> liquidus_temp m" "liquidus_temp m \<le> 2 ^ 100"
    and "1 / 2 ^ 100 \<le> pt" "pt \<le> 2 ^ 100"
  shows "\<exists>g. calculate_weld_pool_geometry_b64 h m pt = Inr g \<and>
           3.2 * (1 - 1 / 2 ^ 51) \<le> aspect_ratio g \<and>
           (raw_width_b64 (l_c_b64 h m) \<le> fl (pt * 2) \<longrightarrow>
              \<bar>aspect_ratio g - 3.2\<bar> \<le> 3.2 / 2 ^ 51) \<and>
           ((1 + 1 / 2 ^ 50) * fl (pt * 2) \<le> raw_width_b64 (l_c_b64 h m) \<longrightarrow>
              3.2 < aspect_ratio g)"
  using assms by (rule aspect_b64_bounds)

theorem aspect_ratio_b64_bounds_witness:
  "((1 / 2 ^ 100 \<le> (1::real) \<and> (1::real) \<le> 2 ^ 100 \<and>
     1 / 2 ^ 100 \<le> thermal_conductivity steel \<and> thermal_conductivity steel \<le> 2 ^ 100 \<and>
     1 / 2 ^ 100 \<le> density steel \<and> density steel \<le> 2 ^ 100 \<and>
     1 / 2 ^ 100 \<le> specific_heat_solid steel \<and> specific_heat_solid steel \<le> 2 ^ 100 \<and>
     298 + 1 / 2 ^ 44 \<le> liquidus_temp steel \<and> liquidus_temp steel \<le> 2 ^ 100 \<and>
     1 / 2 ^ 100 \<le> (20::real) \<and> (20::real) \<le> 2 ^ 100) \<and>
    raw_width_b64 (l_c_b64 1 steel) \<le> fl (20 * 2) \<and>
    (\<exists>g. calculate_weld_pool_geometry_b64 1 steel 20 = Inr g \<and>
         3.2 * (1 - 1 / 2 ^ 51) \<le> aspect_ratio g \<and>
         \<bar>aspect_ratio g - 3.2\<bar> \<le> 3.2 / 2 ^ 51)) \<and>
   ((1 / 2 ^ 100 \<le> (700::real) \<and> (700::real) \<le> 2 ^ 100 \<and>
     1 / 2 ^ 100 \<le> (10::real) \<and> (10::real) \<le> 2 ^ 100) \<and>
    (1 + 1 / 2 ^ 50) * fl (10 * 2) \<le> raw_width_b64 (l_c_b64 700 steel) \<and>
    (\<exists>g. calculate_weld_pool_geometry_b64 700 steel 10 = Inr g \<and> 3.2 < aspect_ratio g))"
proof -
  have w1: "raw_width_b64 (l_c_b64 1 steel) \<le> fl (20 * 2)"
    unfolding pool_1_steel_20(3,4) by simp
  have w2: "(1 + 1 / 2 ^ 50) * fl (10 * 2) \<le> raw_width_b64 (l_c_b64 700 steel)"
    unfolding pool_700_steel_10 by simp
  have r: "1 / 2 ^ 100 \<le> (1::real)" "(1::real) \<le> 2 ^ 100"
    "1 / 2 ^ 100 \<le> (20::real)" "(20::real) \<le> 2 ^ 100"
    "1 / 2 ^ 100 \<le> (700::real)" "(700::real) \<le> 2 ^ 100"
    "1 / 2 ^ 100 \<le> (10::real)" "(10::real) \<le> 2 ^ 100"
    by simp_all
  have a: "\<exists>g. calculate_weld_pool_geometry_b64 1 steel 20 = Inr g \<and>
         3.2 * (1 - 1 / 2 ^ 51) \<le> aspect_ratio g \<and>
         \<bar>aspect_ratio g - 3.2\<bar> \<le> 3.2 / 2 ^ 51"
    using aspect_ratio_b64_bounds [OF r(1,2) steel_in_range r(3,4)] w1 by blast
  have b: "\<exists>g. calculate_weld_pool_geometry_b64 700 steel 10 = Inr g \<and> 3.2 < aspect_ratio g"
    using aspect_ratio_b64_bounds [OF r(5,6) steel_in_range r(7,8)] w2 by blast
  show ?thesis
    using a b w1 w2 r steel_in_range by (intro conjI) assumption+
qed

section \<open>Properties of the temperature field\<close>

lemma sequence_err_map_Inr:
  assumes "\<And>a. a \<in> set as \<Longrightarrow> g a = Inr (f a)"
  shows "sequence_err (map g as) = Inr (map f as)"
  using assms by (induction as) simp_all

lemma linspace_nth:
  assumes "i < num" "1 < num"
  shows "linspace start stop num ! i = start + real i * ((stop - start) / real (num - 1))"
  using assms by (simp add: linspace_def)

lemma length_linspace: "length (linspace start stop num) = num"
  by (simp add: linspace_def)

lemma point_temperature_Inr:
  assumes "k \<noteq> 0"
  shows "point_temperature q k v alpha a b = Inr (projr (point_temperature q k v alpha a b))"
  using assms by (simp add: point_temperature_def Let_def)

lemma point_temperature_gt:
  assumes "0 < q" "0 < k"
  shows "298 < projr (point_temperature q k v alpha a b)"
proof (cases "0 < sqrt (a ^ 2 + b ^ 2)")
  case True
  then have "0 < (q / (2 * pi * k * sqrt (a ^ 2 + b ^ 2)))
                 * exp (- v * (sqrt (a ^ 2 + b ^ 2) - a) / (2 * alpha))"
    using assms by simp
  then show ?thesis
    using True by (simp add: point_temperature_def Let_def)
next
  case False
  have "0 < q / (4 * pi * k * 0.001)" using assms by simp
  then show ?thesis
    using False assms by (simp add: point_temperature_def Let_def)
qed

lemma grid_rows:
  assumes "k \<noteq> 0"
  shows "sequence_err
           (map (\<lambda>(xrow, yrow).
              sequence_err
                (map (\<lambda>(x_m, y_m). point_temperature q k v alpha x_m y_m)
                   (zip xrow yrow)))
              (zip (map (map s) (fst (meshgrid xs ys))) (map (map s) (snd (meshgrid xs ys))))) =
         Inr (map (\<lambda>b. map (\<lambda>a. projr (point_temperature q k v alpha (s a) (s b))) xs) ys)"
proof -
  have z: "zip (map (map s) (fst (meshgrid xs ys))) (map (map s) (snd (meshgrid xs ys)))
             = map (\<lambda>b. (map s xs, map (\<lambda>a. s b) xs)) ys"
    by (simp add: meshgrid_def zip_map_map zip_same_conv_map comp_def)
  have row: "\<And>b. sequence_err
                (map (\<lambda>(x_m, y_m). point_temperature q k v alpha x_m y_m)
                   (zip (map s xs) (map (\<lambda>a. s b) xs)))
              = Inr (map (\<lambda>a. projr (point_temperature q k v alpha (s a) (s b))) xs)"
  proof -
    fix b
    have "zip (map s xs) (map (\<lambda>a. s b) xs) = map (\<lambda>a. (s a, s b)) xs"
      by (simp add: zip_map_map zip_same_conv_map comp_def)
    then show "sequence_err
                (map (\<lambda>(x_m, y_m). point_temperature q k v alpha x_m y_m)
                   (zip (map s xs) (map (\<lambda>a. s b) xs)))
              = Inr (map (\<lambda>a. projr (point_temperature q k v alpha (s a) (s b))) xs)"
      using point_temperature_Inr [OF assms]
      by (simp add: comp_def sequence_err_map_Inr)
  qed
  show ?thesis
    unfolding z by (simp add: comp_def row sequence_err_map_Inr)
qed

lemma temperature_result:
  assumes "thermal_conductivity m \<noteq> 0" "density m * specific_heat_solid m \<noteq> 0"
  shows "\<exists>f. calculate_temperature_distribution h m ts = Inr f \<and>
           x_axis f = linspace (-20) 40 61 \<and> y_axis f = linspace (-15) 15 31 \<and>
           temperature f =
             map (\<lambda>b. map (\<lambda>a. min (projr (point_temperature (h * 1000)
                    (thermal_conductivity m) (ts / 1000)
                    (thermal_conductivity m / (density m * specific_heat_solid m))
                    (a / 1000) (b / 1000))) 3500)
                  (linspace (-20) 40 61))
               (linspace (-15) 15 31)"
  unfolding calculate_temperature_distribution_def Let_def
  using assms(2)
  by (simp add: split_beta grid_rows [OF assms(1)] comp_def del: mult_eq_0_iff)

lemma temperature_entry:
  assumes r: "calculate_temperature_distribution h m ts = Inr f"
    and k: "thermal_conductivity m \<noteq> 0" "density m * specific_heat_solid m \<noteq> 0"
    and ij: "i < 31" "j < 61"
  shows "x_axis f ! j = real j - 20" "y_axis f ! i = real i - 15"
    "temperature f ! i ! j =
       min (projr (point_temperature (h * 1000) (thermal_conductivity m) (ts / 1000)
              (thermal_conductivity m / (density m * specific_heat_solid m))
              ((real j - 20) / 1000) ((real i - 15) / 1000))) 3500"
proof -
  obtain f' where f': "calculate_temperature_distribution h m ts = Inr f'"
    "x_axis f' = linspace (-20) 40 61" "y_axis f' = linspace (-15) 15 31"
    "temperature f' =
             map (\<lambda>b. map (\<lambda>a. min (projr (point_temperature (h * 1000)
                    (thermal_conductivity m) (ts / 1000)
                    (thermal_conductivity m / (density m * specific_heat_solid m))
                    (a / 1000) (b / 1000))) 3500)
                  (linspace (-20) 40 61))
               (linspace (-15) 15 31)"
    using temperature_result [OF k, of h ts] by blast
  have e: "f' = f" using r f'(1) by simp
  have xj: "linspace (-20) 40 61 ! j = real j - 20"
    using ij(2) by (simp add: linspace_nth)
  have yi: "linspace (-15) 15 31 ! i = real i - 15"
    using ij(1) by (simp add: linspace_nth)
  show "x_axis f ! j = real j - 20" using f'(2) e xj by simp
  show "y_axis f ! i = real i - 15" using f'(3) e yi by simp
  show "temperature f ! i ! j =
       min (projr (point_temperature (h * 1000) (thermal_conductivity m) (ts / 1000)
              (thermal_conductivity m / (density m * specific_heat_solid m))
              ((real j - 20) / 1000) ((real i - 15) / 1000))) 3500"
    using ij by (simp add: f'(4) [unfolded e] length_linspace xj yi)
qed

text \<open>
  Claim C2. For a positive heat input, a positive travel speed and a material with
  positive conductivity, density and solid specific heat, the function returns a field
  of 31 rows of 61 entries, and every entry lies in \<open>[298, 3500]\<close>. The source point
  (row 15, column 20) is one of the entries; the witness evaluates it.
\<close>

theorem temperature_bounds:
  assumes "0 < h" "0 < ts"
    and "0 < thermal_conductivity m" "0 < density m" "0 < specific_heat_solid m"
  shows "\<exists>f. calculate_temperature_distribution h m ts = Inr f \<and>
           length (temperature f) = 31 \<and>
           (\<forall>row \<in> set (temperature f). length row = 61 \<and>
              (\<forall>t \<in> set row. 298 \<le> t \<and> t \<le> 3500))"
proof -
  have k: "thermal_conductivity m \<noteq> 0" "density m * specific_heat_solid m \<noteq> 0"
    using assms(3-5) by simp_all
  have q: "0 < h * 1000" using assms(1) by simp
  have b: "\<And>a b. 298 \<le> min (projr (point_temperature (h * 1000)
                    (thermal_conductivity m) (ts / 1000)
                    (thermal_conductivity m / (density m * specific_heat_solid m))
                    a b)) 3500"
    using point_temperature_gt [OF q assms(3)] by (simp add: less_imp_le)
  obtain f where f: "calculate_temperature_distribution h m ts = Inr f"
    "temperature f =
             map (\<lambda>b. map (\<lambda>a. min (projr (point_temperature (h * 1000)
                    (thermal_conductivity m) (ts / 1000)
                    (thermal_conductivity m / (density m * specific_heat_solid m))
                    (a / 1000) (b / 1000))) 3500)
                  (linspace (-20) 40 61))
               (linspace (-15) 15 31)"
    using temperature_result [OF k, of h ts] by blast
  have "length (temperature f) = 31" by (simp add: f(2) length_linspace)
  moreover have "\<forall>row \<in> set (temperature f). length row = 61 \<and>
              (\<forall>t \<in> set row. 298 \<le> t \<and> t \<le> 3500)"
    unfolding f(2) using b by (auto simp add: length_linspace)
  ultimately show ?thesis using f(1) by blast
qed

lemma origin_value:
  "projr (point_temperature 700000 50 v alpha 0 0) = 298 + 3500000 / pi"
  by (simp add: point_temperature_def Let_def)

theorem temperature_bounds_witness:
  "(0::real) < 700 \<and> (0::real) < 5 \<and> 0 < thermal_conductivity steel \<and> 0 < density steel \<and>
   0 < specific_heat_solid steel \<and>
   (\<exists>f. calculate_temperature_distribution 700 steel 5 = Inr f \<and>
      temperature f ! 15 ! 20 = 3500 \<and>
      298 \<le> temperature f ! 15 ! 20 \<and> temperature f ! 15 ! 20 \<le> 3500)"
proof -
  have s: "0 < thermal_conductivity steel" "0 < density steel" "0 < specific_heat_solid steel"
    by (simp_all add: steel_def)
  obtain f where f: "calculate_temperature_distribution 700 steel 5 = Inr f"
    "length (temperature f) = 31"
    "\<forall>row \<in> set (temperature f). length row = 61 \<and> (\<forall>t \<in> set row. 298 \<le> t \<and> t \<le> 3500)"
    using temperature_bounds [of 700 5 steel] s by auto
  have row: "temperature f ! 15 \<in> set (temperature f)" using f(2) by simp
  then have "length (temperature f ! 15) = 61" using f(3) by blast
  then have "temperature f ! 15 ! 20 \<in> set (temperature f ! 15)" by simp
  then have b: "298 \<le> temperature f ! 15 ! 20 \<and> temperature f ! 15 ! 20 \<le> 3500"
    using f(3) row by blast
  have "pi < 4" by (rule pi_less_4)
  then have "3202 * pi < 3500000" by simp
  then have "3500 \<le> 298 + 3500000 / pi"
    using pi_gt_zero by (simp add: pos_le_divide_eq)
  moreover have "temperature f ! 15 ! 20 =
       min (projr (point_temperature (700 * 1000) (thermal_conductivity steel) (5 / 1000)
              (thermal_conductivity steel / (density steel * specific_heat_solid steel))
              ((real 20 - 20) / 1000) ((real 15 - 15) / 1000))) 3500"
    by (rule temperature_entry(3) [OF f(1)]) (simp_all add: steel_def)
  ultimately have v: "temperature f ! 15 ! 20 = 3500"
    by (simp add: steel_def origin_value)
  show ?thesis using s f(1) v b by auto
qed

section \<open>Temperature along the direction of travel\<close>

lemma point_value_off_source:
  assumes "0 < sqrt (a ^ 2 + b ^ 2)"
  shows "projr (point_temperature q k v alpha a b) =
           298 + (q / (2 * pi * k * sqrt (a ^ 2 + b ^ 2)))
                   * exp (- v * (sqrt (a ^ 2 + b ^ 2) - a) / (2 * alpha))"
  using assms by (simp add: point_temperature_def Let_def)

lemma axis_value:
  assumes "0 < a"
  shows "projr (point_temperature q k v alpha a 0) = 298 + q / (2 * pi * k * a)"
proof -
  have s: "sqrt (a ^ 2 + 0 ^ 2) = a" using assms by simp
  show ?thesis
    using assms by (simp add: point_value_off_source s)
qed

lemma axis_value_antimono:
  assumes "0 < q" "0 < k" "0 < a1" "a1 \<le> a2"
  shows "projr (point_temperature q k v alpha a2 0)
           \<le> projr (point_temperature q k v alpha a1 0)"
proof -
  have a2: "0 < a2" using assms(3,4) by simp
  have "2 * pi * k * a1 \<le> 2 * pi * k * a2"
    using assms(2,4) by (simp add: mult_left_mono)
  moreover have "0 < 2 * pi * k * a1" using assms(2,3) by simp
  ultimately have "q / (2 * pi * k * a2) \<le> q / (2 * pi * k * a1)"
    using assms(1) by (simp add: frac_le)
  then show ?thesis
    by (simp add: axis_value [OF assms(3)] axis_value [OF a2])
qed

lemma wake_rise:
  fixes A R1 R2 e1 e2 d :: real
  assumes "0 < A" "0 < R1" "0 < R2" "0 \<le> d"
    and gap: "e2 + d \<le> e1" and ratio: "R2 < (1 + d) * R1"
  shows "A / R1 * exp (- e1) < A / R2 * exp (- e2)"
proof -
  have "exp (- e1) \<le> exp (- e2 - d)" using gap by simp
  also have "\<dots> = exp (- e2) / exp d" by (simp add: exp_diff)
  also have "\<dots> \<le> exp (- e2) / (1 + d)"
    using assms(4) by (intro divide_left_mono) (simp_all add: add_pos_nonneg)
  finally have "A / R1 * exp (- e1) \<le> A / R1 * (exp (- e2) / (1 + d))"
    using assms(1,2) by (intro mult_left_mono) simp_all
  also have "\<dots> = (A * exp (- e2)) / ((1 + d) * R1)" by simp
  also have "\<dots> < (A * exp (- e2)) / R2"
    using assms(1,3) ratio by (intro divide_strict_left_mono) (simp_all add: add_pos_nonneg)
  finally show ?thesis by simp
qed

lemma steel_point_value:
  assumes "0 < sqrt (a ^ 2 + b ^ 2)"
  shows "projr (point_temperature 700000 50 (1 / 200) (1 / 113256000) a b) =
           298 + (7000 / pi) / sqrt (a ^ 2 + b ^ 2)
                   * exp (- (283140 * (sqrt (a ^ 2 + b ^ 2) - a)))"
proof -
  have "- (1 / 200) * (sqrt (a ^ 2 + b ^ 2) - a) / (2 * (1 / 113256000))
          = - (283140 * (sqrt (a ^ 2 + b ^ 2) - a))"
    by (simp add: algebra_simps)
  moreover have "700000 / (2 * pi * 50 * sqrt (a ^ 2 + b ^ 2))
          = (7000 / pi) / sqrt (a ^ 2 + b ^ 2)"
    by simp
  ultimately show ?thesis
    by (simp only: point_value_off_source [OF assms])
qed

lemma exp_36_lower: "(21::real) \<le> exp (36 / 10)"
proof -
  have "(1 + 36 / 100 :: real) \<le> exp (36 / 100)" by (rule exp_ge_add_one_self)
  then have "(1 + 36 / 100 :: real) ^ 10 \<le> exp (36 / 100) ^ 10"
    by (intro power_mono) simp_all
  also have "exp (36 / 100 :: real) ^ 10 = exp (of_nat 10 * (36 / 100))"
    by (rule exp_of_nat_mult [symmetric])
  also have "\<dots> = exp (36 / 10)" by simp
  finally have "(1 + 36 / 100 :: real) ^ 10 \<le> exp (36 / 10)" .
  moreover have "(21::real) \<le> (1 + 36 / 100) ^ 10" by (simp add: power_def)
  ultimately show ?thesis by linarith
qed

lemma wake_points:
  fixes R1 R2 :: real
  defines "R1 \<equiv> sqrt ((39 / 1000) ^ 2 + (1 / 1000) ^ 2)"
    and "R2 \<equiv> sqrt ((40 / 1000) ^ 2 + (1 / 1000) ^ 2)"
  shows "390128 / 10000000 \<le> R1" "R2 \<le> 400126 / 10000000" "R1 < R2"
proof -
  show "390128 / 10000000 \<le> R1"
    unfolding R1_def by (rule real_le_rsqrt) (simp add: power2_eq_square)
  show "R2 \<le> 400126 / 10000000"
    unfolding R2_def by (rule real_le_lsqrt) (simp_all add: power2_eq_square)
  show "R1 < R2"
    unfolding R1_def R2_def by (simp add: power2_eq_square)
qed

lemma wake_values:
  "projr (point_temperature 700000 50 (1 / 200) (1 / 113256000) (39 / 1000) (1 / 1000))
     < projr (point_temperature 700000 50 (1 / 200) (1 / 113256000) (40 / 1000) (1 / 1000))"
  "projr (point_temperature 700000 50 (1 / 200) (1 / 113256000) (39 / 1000) (1 / 1000))
     < 3500"
proof -
  define R1 :: real where "R1 = sqrt ((39 / 1000) ^ 2 + (1 / 1000) ^ 2)"
  define R2 :: real where "R2 = sqrt ((40 / 1000) ^ 2 + (1 / 1000) ^ 2)"
  have L1: "390128 / 10000000 \<le> R1" and U2: "R2 \<le> 400126 / 10000000"
    unfolding R1_def R2_def by (rule wake_points)+
  have p1: "0 < R1" using L1 by simp
  have p2: "0 < R2" unfolding R2_def by (simp add: power2_eq_square)
  have v1: "projr (point_temperature 700000 50 (1 / 200) (1 / 113256000) (39 / 1000) (1 / 1000))
      = 298 + (7000 / pi) / R1 * exp (- (283140 * (R1 - 39 / 1000)))"
    using p1 unfolding R1_def by (rule steel_point_value)
  have v2: "projr (point_temperature 700000 50 (1 / 200) (1 / 113256000) (40 / 1000) (1 / 1000))
      = 298 + (7000 / pi) / R2 * exp (- (283140 * (R2 - 40 / 1000)))"
    using p2 unfolding R2_def by (rule steel_point_value)
  have A: "(0::real) < 7000 / pi" by simp
  have gap: "283140 * (R2 - 40 / 1000) + 56628 / 1000000 \<le> 283140 * (R1 - 39 / 1000)"
    using L1 U2 by simp
  have ratio: "R2 < (1 + 56628 / 1000000) * R1" using L1 U2 by simp
  have "(7000 / pi) / R1 * exp (- (283140 * (R1 - 39 / 1000)))
          < (7000 / pi) / R2 * exp (- (283140 * (R2 - 40 / 1000)))"
    using A p1 p2 _ gap ratio by (rule wake_rise) simp
  then show "projr (point_temperature 700000 50 (1 / 200) (1 / 113256000) (39 / 1000) (1 / 1000))
     < projr (point_temperature 700000 50 (1 / 200) (1 / 113256000) (40 / 1000) (1 / 1000))"
    by (simp only: v1 v2 add_strict_left_mono)
  have e: "36 / 10 \<le> 283140 * (R1 - 39 / 1000)" using L1 by simp
  have "exp (- (283140 * (R1 - 39 / 1000))) \<le> exp (- (36 / 10))"
    using e by simp
  also have "\<dots> = 1 / exp (36 / 10)" by (simp add: exp_minus inverse_eq_divide)
  also have "\<dots> \<le> 1 / 21"
    using exp_36_lower by (intro divide_left_mono) simp_all
  finally have E: "exp (- (283140 * (R1 - 39 / 1000))) \<le> 1 / 21" .
  have "3 \<le> pi" by (rule pi_ge_three)
  then have "3 * (39 / 1000) \<le> pi * R1" using L1 by (intro mult_mono) simp_all
  then have "7000 / (pi * R1) \<le> 7000 / (3 * (39 / 1000))"
    by (intro frac_le) simp_all
  then have "(7000 / pi) / R1 \<le> 7000 / (3 * (39 / 1000))"
    by simp
  moreover have "0 \<le> (7000 / pi) / R1" using p1 by simp
  ultimately have "(7000 / pi) / R1 * exp (- (283140 * (R1 - 39 / 1000)))
          \<le> 7000 / (3 * (39 / 1000)) * (1 / 21)"
    using E by (intro mult_mono) simp_all
  then show "projr (point_temperature 700000 50 (1 / 200) (1 / 113256000) (39 / 1000) (1 / 1000))
     < 3500"
    unfolding v1 by simp
qed

lemma temperature_total:
  assumes "thermal_conductivity m \<noteq> 0" "density m * specific_heat_solid m \<noteq> 0"
  shows "calculate_temperature_distribution h m ts
           = Inr (projr (calculate_temperature_distribution h m ts))"
  using temperature_result [OF assms, of h ts] by auto

text \<open>
  Claim C8 says that for two grid points with the same \<open>y\<close> and \<open>x > 0\<close> the nearer one
  is at least as hot. Off the axis the exponential factor grows with \<open>x\<close> faster than
  \<open>1 / R\<close> falls. At the base case (heat input 700 J/mm, steel, 5 mm/s), in the row
  \<open>y = 1\<close> mm, the point \<open>x = 39\<close> mm is nearer to the source than the point
  \<open>x = 40\<close> mm and is colder, and its value is below the ceiling of 3500 K.
\<close>

theorem trailing_decay_counterexample:
  "(0::real) < 700 \<and> (0::real) < 5 \<and> valid_material steel \<and>
   calculate_temperature_distribution 700 steel 5
     = Inr (projr (calculate_temperature_distribution 700 steel 5)) \<and>
   y_axis (projr (calculate_temperature_distribution 700 steel 5)) ! 16 = 1 \<and>
   x_axis (projr (calculate_temperature_distribution 700 steel 5)) ! 59 = 39 \<and>
   x_axis (projr (calculate_temperature_distribution 700 steel 5)) ! 60 = 40 \<and>
   sqrt (39 ^ 2 + 1 ^ 2) < sqrt (40 ^ 2 + 1 ^ 2) \<and>
   temperature (projr (calculate_temperature_distribution 700 steel 5)) ! 16 ! 59
     < temperature (projr (calculate_temperature_distribution 700 steel 5)) ! 16 ! 60"
proof -
  let ?F = "projr (calculate_temperature_distribution 700 steel 5)"
  have k: "thermal_conductivity steel \<noteq> 0" "density steel * specific_heat_solid steel \<noteq> 0"
    by (simp_all add: steel_def)
  have r: "calculate_temperature_distribution 700 steel 5 = Inr ?F"
    using k by (rule temperature_total)
  have y: "y_axis ?F ! 16 = 1"
    using temperature_entry(2) [OF r k, of 16 0] by simp
  have x1: "x_axis ?F ! 59 = 39"
    using temperature_entry(1) [OF r k, of 0 59] by simp
  have x2: "x_axis ?F ! 60 = 40"
    using temperature_entry(1) [OF r k, of 0 60] by simp
  have t1: "temperature ?F ! 16 ! 59 =
      min (projr (point_temperature 700000 50 (1 / 200) (1 / 113256000)
             (39 / 1000) (1 / 1000))) 3500"
    using temperature_entry(3) [OF r k, of 16 59] by (simp add: steel_def)
  have t2: "temperature ?F ! 16 ! 60 =
      min (projr (point_temperature 700000 50 (1 / 200) (1 / 113256000)
             (40 / 1000) (1 / 1000))) 3500"
    using temperature_entry(3) [OF r k, of 16 60] by (simp add: steel_def)
  have t: "temperature ?F ! 16 ! 59 < temperature ?F ! 16 ! 60"
    unfolding t1 t2 using wake_values by simp
  have s: "sqrt (39 ^ 2 + 1 ^ 2) < sqrt (40 ^ 2 + 1 ^ 2)" by simp
  show ?thesis
    using r y x1 x2 s t valid_material_catalog(1) by (intro conjI) simp_all
qed

text \<open>
  Claim C8, amended. On the axis itself (the row \<open>y = 0\<close>), for a positive heat input, a
  positive travel speed and a valid material: of two grid points with \<open>0 < x1 < x2\<close> the
  nearer one is at least as hot.
\<close>

theorem axis_decay:
  assumes "0 < h" "0 < ts" "valid_material m"
    and "20 < j1" "j1 < j2" "j2 < 61"
  shows "\<exists>f. calculate_temperature_distribution h m ts = Inr f \<and>
           y_axis f ! 15 = 0 \<and>
           0 < x_axis f ! j1 \<and> x_axis f ! j1 < x_axis f ! j2 \<and>
           temperature f ! 15 ! j2 \<le> temperature f ! 15 ! j1"
proof -
  let ?F = "projr (calculate_temperature_distribution h m ts)"
  have kp: "0 < thermal_conductivity m" using assms(3) by (simp add: valid_material_def)
  have k: "thermal_conductivity m \<noteq> 0" "density m * specific_heat_solid m \<noteq> 0"
    using assms(3) by (simp_all add: valid_material_def)
  have r: "calculate_temperature_distribution h m ts = Inr ?F"
    using k by (rule temperature_total)
  have j: "j1 < 61" using assms(5,6) by simp
  have y: "y_axis ?F ! 15 = 0"
    using temperature_entry(2) [OF r k, of 15 0] by simp
  have x1: "x_axis ?F ! j1 = real j1 - 20"
    using temperature_entry(1) [OF r k _ j, of 0] by simp
  have x2: "x_axis ?F ! j2 = real j2 - 20"
    using temperature_entry(1) [OF r k _ assms(6), of 0] by simp
  have a1: "0 < (real j1 - 20) / 1000" using assms(4) by simp
  have a12: "(real j1 - 20) / 1000 \<le> (real j2 - 20) / 1000" using assms(5) by simp
  have q: "0 < h * 1000" using assms(1) by simp
  have m: "projr (point_temperature (h * 1000) (thermal_conductivity m) (ts / 1000)
              (thermal_conductivity m / (density m * specific_heat_solid m))
              ((real j2 - 20) / 1000) 0)
        \<le> projr (point_temperature (h * 1000) (thermal_conductivity m) (ts / 1000)
              (thermal_conductivity m / (density m * specific_heat_solid m))
              ((real j1 - 20) / 1000) 0)"
    using q kp a1 a12 by (rule axis_value_antimono)
  have t1: "temperature ?F ! 15 ! j1 =
      min (projr (point_temperature (h * 1000) (thermal_conductivity m) (ts / 1000)
              (thermal_conductivity m / (density m * specific_heat_solid m))
              ((real j1 - 20) / 1000) 0)) 3500"
    using temperature_entry(3) [OF r k _ j, of 15] by simp
  have t2: "temperature ?F ! 15 ! j2 =
      min (projr (point_temperature (h * 1000) (thermal_conductivity m) (ts / 1000)
              (thermal_conductivity m / (density m * specific_heat_solid m))
              ((real j2 - 20) / 1000) 0)) 3500"
    using temperature_entry(3) [OF r k _ assms(6), of 15] by simp
  have t: "temperature ?F ! 15 ! j2 \<le> temperature ?F ! 15 ! j1"
    unfolding t1 t2 using m by (simp add: min_le_iff_disj)
  have "0 < x_axis ?F ! j1" "x_axis ?F ! j1 < x_axis ?F ! j2"
    using assms(4,5) by (simp_all add: x1 x2)
  then show ?thesis using r y t by blast
qed

theorem axis_decay_witness:
  "(0::real) < 700 \<and> (0::real) < 5 \<and> valid_material steel \<and>
   (20::nat) < 21 \<and> (21::nat) < 60 \<and> (60::nat) < 61 \<and>
   (\<exists>f. calculate_temperature_distribution 700 steel 5 = Inr f \<and>
      y_axis f ! 15 = 0 \<and> 0 < x_axis f ! 21 \<and> x_axis f ! 21 < x_axis f ! 60 \<and>
      temperature f ! 15 ! 60 \<le> temperature f ! 15 ! 21)"
  using axis_decay [of 700 5 steel 21 60] valid_material_catalog(1) by simp

section \<open>Sensitivity at the representative base case\<close>

lemma sensitivity_entry_clamped:
  assumes hi: "varied_heat_input name val (1 + 0.1) 200 25 5 0.7 = Inr hh"
    and lo: "varied_heat_input name val (1 - 0.1) 200 25 5 0.7 = Inr hl"
    and "630 \<le> hh" "630 \<le> hl" "val \<noteq> 0"
    and "width bp = 20" "penetration bp = 9"
  shows "sensitivity_entry bp 200 25 5 0.7 steel 10 (name, val) =
           Inr \<lparr>parameter = name, width_sensitivity = 0,
                penetration_sensitivity = 0, base_value = val\<rparr>"
proof -
  obtain gh where gh: "calculate_weld_pool_geometry hh steel 10 = Inr gh"
      "width gh = 20" "penetration gh = 9"
    using geometry_steel_10 [OF assms(3)] by auto
  obtain gl where gl: "calculate_weld_pool_geometry hl steel 10 = Inr gl"
      "width gl = 20" "penetration gl = 9"
    using geometry_steel_10 [OF assms(4)] by auto
  show ?thesis
    unfolding sensitivity_entry_def Let_def fst_conv snd_conv
    using assms(5-7) by (simp only: hi lo gh sum.case) (simp add: gl)
qed

lemma varied_heat_input_base:
  "varied_heat_input ''current'' 200 (1 + 0.1) 200 25 5 0.7 = Inr 770"
  "varied_heat_input ''current'' 200 (1 - 0.1) 200 25 5 0.7 = Inr 630"
  "varied_heat_input ''voltage'' 25 (1 + 0.1) 200 25 5 0.7 = Inr 770"
  "varied_heat_input ''voltage'' 25 (1 - 0.1) 200 25 5 0.7 = Inr 630"
  "varied_heat_input ''travel_speed'' 5 (1 + 0.1) 200 25 5 0.7 = Inr (7000 / 11)"
  "varied_heat_input ''travel_speed'' 5 (1 - 0.1) 200 25 5 0.7 = Inr (7000 / 9)"
  "varied_heat_input ''arc_efficiency'' 0.7 (1 + 0.1) 200 25 5 0.7 = Inr 770"
  "varied_heat_input ''arc_efficiency'' 0.7 (1 - 0.1) 200 25 5 0.7 = Inr 630"
  by (simp_all add: varied_heat_input_def calculate_heat_input_def Let_def)

lemma sensitivity_base:
  "sensitivity_analysis 200 25 5 0.7 steel 10 =
     Inr [\<lparr>parameter = ''current'', width_sensitivity = 0,
            penetration_sensitivity = 0, base_value = 200\<rparr>,
          \<lparr>parameter = ''voltage'', width_sensitivity = 0,
            penetration_sensitivity = 0, base_value = 25\<rparr>,
          \<lparr>parameter = ''travel_speed'', width_sensitivity = 0,
            penetration_sensitivity = 0, base_value = 5\<rparr>,
          \<lparr>parameter = ''arc_efficiency'', width_sensitivity = 0,
            penetration_sensitivity = 0, base_value = 0.7\<rparr>]"
proof -
  have h: "calculate_heat_input 200 25 5 0.7 = Inr 700"
    by (simp add: calculate_heat_input_def Let_def)
  obtain bp where bp: "calculate_weld_pool_geometry 700 steel 10 = Inr bp"
      "width bp = 20" "penetration bp = 9"
    using geometry_steel_10 [of 700] by auto
  have e1: "sensitivity_entry bp 200 25 5 0.7 steel 10 (''current'', 200) =
      Inr \<lparr>parameter = ''current'', width_sensitivity = 0,
           penetration_sensitivity = 0, base_value = 200\<rparr>"
    by (rule sensitivity_entry_clamped [OF varied_heat_input_base(1,2)])
      (simp_all add: bp)
  have e2: "sensitivity_entry bp 200 25 5 0.7 steel 10 (''voltage'', 25) =
      Inr \<lparr>parameter = ''voltage'', width_sensitivity = 0,
           penetration_sensitivity = 0, base_value = 25\<rparr>"
    by (rule sensitivity_entry_clamped [OF varied_heat_input_base(3,4)])
      (simp_all add: bp)
  have e3: "sensitivity_entry bp 200 25 5 0.7 steel 10 (''travel_speed'', 5) =
      Inr \<lparr>parameter = ''travel_speed'', width_sensitivity = 0,
           penetration_sensitivity = 0, base_value = 5\<rparr>"
    by (rule sensitivity_entry_clamped [OF varied_heat_input_base(5,6)])
      (simp_all add: bp)
  have e4: "sensitivity_entry bp 200 25 5 0.7 steel 10 (''arc_efficiency'', 0.7) =
      Inr \<lparr>parameter = ''arc_efficiency'', width_sensitivity = 0,
           penetration_sensitivity = 0, base_value = 0.7\<rparr>"
    by (rule sensitivity_entry_clamped [OF varied_heat_input_base(7,8)])
      (simp_all add: bp)
  show ?thesis
    unfolding sensitivity_analysis_def Let_def
    by (simp add: h bp(1) e1 e2 e3 e4)
qed

text \<open>
  Claim C5 says that the width sensitivity of the entry \<open>current\<close> is positive at the
  base case (200 A, 25 V, 5 mm/s, efficiency 0.7, steel, plate thickness 10 mm). There the
  width is clamped to 20 mm at the base, the raised and the lowered current, so the
  central difference is zero.
\<close>

theorem sensitivity_current_counterexample:
  "get_properties ''Steel'' = Inr steel \<and>
   sensitivity_analysis 200 25 5 0.7 steel 10
     = Inr (projr (sensitivity_analysis 200 25 5 0.7 steel 10)) \<and>
   parameter (hd (projr (sensitivity_analysis 200 25 5 0.7 steel 10))) = ''current'' \<and>
   \<not> 0 < width_sensitivity (hd (projr (sensitivity_analysis 200 25 5 0.7 steel 10)))"
  by (simp add: sensitivity_base get_properties_cases)

text \<open>
  Claim C5, amended. At the base case the analysis returns the four entries in the order
  current, voltage, travel speed, arc efficiency, and the width sensitivity of the entry
  \<open>current\<close> is zero.
\<close>

theorem sensitivity_current_width:
  "get_properties ''Steel'' = Inr steel \<and>
   (\<exists>rs. sensitivity_analysis 200 25 5 0.7 steel 10 = Inr rs \<and>
      map parameter rs = [''current'', ''voltage'', ''travel_speed'', ''arc_efficiency''] \<and>
      parameter (hd rs) = ''current'' \<and> width_sensitivity (hd rs) = 0)"
  by (simp add: sensitivity_base get_properties_cases)

end
